theory Spec2Isabelle
  imports Main "HOL-Library.Stream"
begin

section \<open>JavaScript values\<close>

text \<open>
  The client is JavaScript: what it reads from a parsed JSON body, and what it keeps in
  its fields, is a dynamically typed value. The numbers of this model are the integers
  (times are milliseconds, lifetimes are seconds), with \<open>NaN\<close> for the result of
  arithmetic on something that is not a number. An integer \<open>n\<close> stands for the double of
  that value, and arithmetic is exact: this is what the code computes as long as operands
  and results stay within \<open>2\<^sup>5\<^sup>3\<close> in magnitude, and the statements below that give a
  computed number say so. Fractions and the infinities are not values of the model.
  A string is a list of characters with codes below 256. An object is the list of its
  own properties, each name once, as \<open>JSON.parse\<close> builds it.
\<close>

datatype jsval =
    Undefined
  | Null
  | Bool bool
  | Num int
  | NaN
  | Str string
  | Arr "jsval list"
  | Obj "(string \<times> jsval) list"

text \<open>The truthiness that \<open>!\<close>, \<open>&&\<close>, \<open>||\<close> and \<open>if\<close> test.\<close>

fun truthy :: "jsval \<Rightarrow> bool" where
  "truthy Undefined = False"
| "truthy Null = False"
| "truthy (Bool b) = b"
| "truthy (Num n) = (n \<noteq> 0)"
| "truthy NaN = False"
| "truthy (Str s) = (s \<noteq> [])"
| "truthy (Arr xs) = True"
| "truthy (Obj kvs) = True"

text \<open>\<open>a || b\<close>: the first operand when it is truthy, the second otherwise.\<close>

definition js_or :: "jsval \<Rightarrow> jsval \<Rightarrow> jsval" where
  "js_or a b = (if truthy a then a else b)"

fun nullish :: "jsval \<Rightarrow> bool" where
  "nullish Undefined = True"
| "nullish Null = True"
| "nullish v = False"

subsection \<open>Thrown values\<close>

text \<open>What a thrown value can be: the SDK's own error, another \<open>Error\<close> (name, message),
  or something that is no \<open>Error\<close> at all.\<close>

record ZilligonError =
  message :: string
  code :: jsval
  statusCode :: "int option"
  details :: jsval

datatype thrown =
    ZErr ZilligonError
  | JsError string string
  | NonError

text \<open>
  The TypeError of a conversion to a primitive that finds no callable \<open>toString\<close> or
  \<open>valueOf\<close> giving one (V8's wording).
\<close>

definition cannot_convert :: thrown where
  "cannot_convert = JsError ''TypeError'' ''Cannot convert object to primitive value''"

text \<open>The results of a sequence of steps of which the first that throws ends it.\<close>

fun collect :: "(thrown + 'a) list \<Rightarrow> thrown + 'a list" where
  "collect [] = Inr []"
| "collect (Inl t # rs) = Inl t"
| "collect (Inr x # rs) = (case collect rs of Inl t \<Rightarrow> Inl t | Inr xs \<Rightarrow> Inr (x # xs))"

subsection \<open>Conversion to string\<close>

text \<open>The decimal digit \<open>d\<close>, for \<open>d\<close> below 10.\<close>

definition digit_char :: "nat \<Rightarrow> char" where
  "digit_char d = ''0123456789'' ! d"

function string_of_nat :: "nat \<Rightarrow> string" where
  "string_of_nat n =
     (if n < 10 then [digit_char n]
      else string_of_nat (n div 10) @ [digit_char (n mod 10)])"
  by pat_completeness auto
termination
  by (relation "measure id") auto

definition string_of_int :: "int \<Rightarrow> string" where
  "string_of_int i = (if i < 0 then CHR ''-'' # string_of_nat (nat (- i)) else string_of_nat (nat i))"

fun join_comma :: "string list \<Rightarrow> string" where
  "join_comma [] = []"
| "join_comma [s] = s"
| "join_comma (s # t # ss) = s @ CHR '','' # join_comma (t # ss)"

text \<open>
  \<open>String(v)\<close>, the conversion that a template literal and the \<open>Error\<close> constructor
  apply; it can throw. An object parsed from JSON inherits \<open>Object.prototype.toString\<close>
  and prints as \<open>[object Object]\<close>, unless it has an own property named \<open>toString\<close>:
  that property shadows the inherited function, its value is no function (JSON has
  none), \<open>valueOf\<close> gives no primitive either, and the conversion throws a TypeError.
  An array prints its elements separated by commas, \<open>null\<close> and \<open>undefined\<close> elements
  as the empty string, and throws when the conversion of an element does. A number
  prints its decimal digits (so does the code up to \<open>2\<^sup>5\<^sup>3\<close>; from \<open>10\<^sup>2\<^sup>1\<close> it prints an
  exponent).
\<close>

fun ToString :: "jsval \<Rightarrow> thrown + string" where
  "ToString Undefined = Inr ''undefined''"
| "ToString Null = Inr ''null''"
| "ToString (Bool b) = Inr (if b then ''true'' else ''false'')"
| "ToString (Num n) = Inr (string_of_int n)"
| "ToString NaN = Inr ''NaN''"
| "ToString (Str s) = Inr s"
| "ToString (Arr xs) =
     (case collect (map (\<lambda>x. if nullish x then Inr [] else ToString x) xs) of
        Inl t \<Rightarrow> Inl t
      | Inr ss \<Rightarrow> Inr (join_comma ss))"
| "ToString (Obj kvs) =
     (case map_of kvs ''toString'' of
        None \<Rightarrow> Inr ''[object Object]''
      | Some f \<Rightarrow> Inl cannot_convert)"

text \<open>Whether the conversion to a string returns.\<close>

definition converts :: "jsval \<Rightarrow> bool" where
  "converts v = (case ToString v of Inl t \<Rightarrow> False | Inr s \<Rightarrow> True)"

subsection \<open>Conversion to number and arithmetic\<close>

text \<open>White space that a numeric string may begin and end with (the characters below 256).\<close>

definition is_ws :: "char \<Rightarrow> bool" where
  "is_ws c = (c \<in> {CHR '' '', CHR 0x09, CHR 0x0A, CHR 0x0B, CHR 0x0C, CHR 0x0D, CHR 0xA0})"

definition trim :: "string \<Rightarrow> string" where
  "trim s = rev (dropWhile is_ws (rev (dropWhile is_ws s)))"

text \<open>The value of a digit, hexadecimal ones included; 16 for any other character.\<close>

definition digit_of :: "char \<Rightarrow> nat" where
  "digit_of c =
     (let n = (of_char c :: nat)
      in if 48 \<le> n \<and> n \<le> 57 then n - 48
         else if 97 \<le> n \<and> n \<le> 102 then n - 87
         else if 65 \<le> n \<and> n \<le> 70 then n - 55
         else 16)"

definition is_digit :: "char \<Rightarrow> bool" where
  "is_digit c = (digit_of c < 10)"

definition is_numeral :: "nat \<Rightarrow> string \<Rightarrow> bool" where
  "is_numeral radix ds = (ds \<noteq> [] \<and> list_all (\<lambda>c. digit_of c < radix) ds)"

definition numeral_value :: "nat \<Rightarrow> string \<Rightarrow> int" where
  "numeral_value radix ds = foldl (\<lambda>acc c. int radix * acc + int (digit_of c)) 0 ds"

text \<open>\<open>0x\<close>, \<open>0o\<close> and \<open>0b\<close> literals, after their prefix.\<close>

definition radix_literal :: "nat \<Rightarrow> string \<Rightarrow> jsval" where
  "radix_literal radix ds = (if is_numeral radix ds then Num (numeral_value radix ds) else NaN)"

text \<open>The exponent part of a decimal literal, which may be absent.\<close>

definition exponent_part :: "string \<Rightarrow> int option" where
  "exponent_part s =
     (case s of
        [] \<Rightarrow> Some 0
      | c # r \<Rightarrow>
          if c = CHR ''e'' \<or> c = CHR ''E'' then
            (case r of
               [] \<Rightarrow> None
             | d # ds \<Rightarrow>
                 if d = CHR ''-'' then (if is_numeral 10 ds then Some (- numeral_value 10 ds) else None)
                 else if d = CHR ''+'' then (if is_numeral 10 ds then Some (numeral_value 10 ds) else None)
                 else if is_numeral 10 r then Some (numeral_value 10 r)
                 else None)
          else None)"

text \<open>
  \<open>m \<times> 10\<^sup>e\<close> when that is an integer. A literal that denotes a fraction has no value in
  this model; it is read as \<open>NaN\<close>, and no statement below depends on such a literal.
\<close>

definition scaled :: "int \<Rightarrow> int \<Rightarrow> jsval" where
  "scaled m e =
     (if 0 \<le> e then Num (m * 10 ^ nat e)
      else if m mod 10 ^ nat (- e) = 0 then Num (m div 10 ^ nat (- e))
      else NaN)"

text \<open>
  An unsigned decimal literal: digits with an optional fraction and an optional exponent,
  at least one digit before or after the point. (\<open>Infinity\<close>, which the code reads as a
  number, is not a value of the model.)
\<close>

definition unsigned_decimal :: "string \<Rightarrow> jsval" where
  "unsigned_decimal s =
     (let ip = takeWhile is_digit s;
          r = dropWhile is_digit s;
          point = (r \<noteq> [] \<and> hd r = CHR ''.'');
          fp = (if point then takeWhile is_digit (tl r) else []);
          r2 = (if point then dropWhile is_digit (tl r) else r)
      in if ip = [] \<and> fp = [] then NaN
         else case exponent_part r2 of
                None \<Rightarrow> NaN
              | Some e \<Rightarrow> scaled (numeral_value 10 (ip @ fp)) (e - int (length fp)))"

text \<open>
  The number a string denotes: white space around it is dropped, the empty string is 0,
  a decimal literal may carry a sign, a literal with a radix prefix may not, and every
  other string is \<open>NaN\<close>.
\<close>

definition StringToNumber :: "string \<Rightarrow> jsval" where
  "StringToNumber s =
     (case trim s of
        [] \<Rightarrow> Num 0
      | c # ds \<Rightarrow>
          if c = CHR ''-'' then (case unsigned_decimal ds of Num n \<Rightarrow> Num (- n) | v \<Rightarrow> NaN)
          else if c = CHR ''+'' then unsigned_decimal ds
          else if c = CHR ''0'' \<and> ds \<noteq> [] \<and> hd ds \<in> {CHR ''x'', CHR ''X''} then radix_literal 16 (tl ds)
          else if c = CHR ''0'' \<and> ds \<noteq> [] \<and> hd ds \<in> {CHR ''o'', CHR ''O''} then radix_literal 8 (tl ds)
          else if c = CHR ''0'' \<and> ds \<noteq> [] \<and> hd ds \<in> {CHR ''b'', CHR ''B''} then radix_literal 2 (tl ds)
          else unsigned_decimal (c # ds))"

text \<open>
  \<open>Number(v)\<close>, the conversion that \<open>*\<close> applies to its operands; it can throw. An
  object is first converted to a primitive, \<open>valueOf\<close> before \<open>toString\<close>: one parsed
  from JSON gives \<open>NaN\<close> through the inherited \<open>toString\<close>, and throws when an own
  property shadows it; an array gives the number its string denotes.
\<close>

fun ToNumber :: "jsval \<Rightarrow> thrown + jsval" where
  "ToNumber Undefined = Inr NaN"
| "ToNumber Null = Inr (Num 0)"
| "ToNumber (Bool b) = Inr (Num (if b then 1 else 0))"
| "ToNumber (Num n) = Inr (Num n)"
| "ToNumber NaN = Inr NaN"
| "ToNumber (Str s) = Inr (StringToNumber s)"
| "ToNumber (Arr xs) = (case ToString (Arr xs) of Inl t \<Rightarrow> Inl t | Inr s \<Rightarrow> Inr (StringToNumber s))"
| "ToNumber (Obj kvs) = (case ToString (Obj kvs) of Inl t \<Rightarrow> Inl t | Inr s \<Rightarrow> Inr NaN)"

text \<open>\<open>a * b\<close> converts its left operand, then its right one, and multiplies.\<close>

definition js_mul :: "jsval \<Rightarrow> jsval \<Rightarrow> thrown + jsval" where
  "js_mul a b =
     (case ToNumber a of
        Inl t \<Rightarrow> Inl t
      | Inr x \<Rightarrow>
          (case ToNumber b of
             Inl t \<Rightarrow> Inl t
           | Inr y \<Rightarrow> Inr (case (x, y) of (Num m, Num n) \<Rightarrow> Num (m * n) | _ \<Rightarrow> NaN)))"

text \<open>
  \<open>a + b\<close> where both operands are numbers already (the only use in the client adds
  \<open>Date.now()\<close> and a product).
\<close>

definition num_add :: "jsval \<Rightarrow> jsval \<Rightarrow> jsval" where
  "num_add a b = (case (a, b) of (Num x, Num y) \<Rightarrow> Num (x + y) | _ \<Rightarrow> NaN)"

text \<open>
  The conversions of a value that the client or its caller supplies, not the server: the
  configuration, of its declared type (\<open>baseUrl\<close> a string, \<open>timeout\<close> a number), and
  the private field \<open>tokenExpiresAt\<close>, which is only ever assigned \<open>null\<close> or the
  result of an addition. No conversion of such a value throws.
\<close>

definition number_of :: "jsval \<Rightarrow> jsval" where
  "number_of v = (case ToNumber v of Inl t \<Rightarrow> NaN | Inr n \<Rightarrow> n)"

definition text_of :: "jsval \<Rightarrow> string" where
  "text_of v = (case ToString v of Inl t \<Rightarrow> [] | Inr s \<Rightarrow> s)"

text \<open>\<open>a - b\<close> and \<open>a < b\<close> on such values: \<open>NaN\<close>, and false, as soon as one side is
  not a number.\<close>

definition js_sub :: "jsval \<Rightarrow> jsval \<Rightarrow> jsval" where
  "js_sub a b = (case (number_of a, number_of b) of (Num x, Num y) \<Rightarrow> Num (x - y) | _ \<Rightarrow> NaN)"

definition js_lt :: "jsval \<Rightarrow> jsval \<Rightarrow> bool" where
  "js_lt a b = (case (number_of a, number_of b) of (Num x, Num y) \<Rightarrow> x < y | _ \<Rightarrow> False)"

subsection \<open>Property access\<close>

text \<open>
  \<open>v.k\<close> for a value that is neither \<open>null\<close> nor \<open>undefined\<close>: the property of an
  object, \<open>undefined\<close> when it has none of that name. None of the names the client reads
  is a built-in property of a string, number, boolean or array.
\<close>

fun member :: "jsval \<Rightarrow> string \<Rightarrow> jsval" where
  "member (Obj kvs) k = (case map_of kvs k of Some v \<Rightarrow> v | None \<Rightarrow> Undefined)"
| "member v k = Undefined"

text \<open>Reading a property of \<open>null\<close> or \<open>undefined\<close> throws a TypeError (Node's wording).\<close>

definition cannot_read :: "jsval \<Rightarrow> string \<Rightarrow> thrown" where
  "cannot_read v k =
     JsError ''TypeError''
       (''Cannot read properties of '' @ (if v = Null then ''null'' else ''undefined'')
        @ '' (reading '' @ [CHR 0x27] @ k @ [CHR 0x27] @ '')'')"

definition getProp :: "jsval \<Rightarrow> string \<Rightarrow> thrown + jsval" where
  "getProp v k = (if nullish v then Inl (cannot_read v k) else Inr (member v k))"

text \<open>\<open>v?.k\<close>: \<open>undefined\<close> when \<open>v\<close> is \<open>null\<close> or \<open>undefined\<close>.\<close>

definition optGet :: "jsval \<Rightarrow> string \<Rightarrow> jsval" where
  "optGet v k = (if nullish v then Undefined else member v k)"

text \<open>
  A template literal converts its substitutions to strings from left to right; what it
  throws is what the first conversion that fails throws.
\<close>

definition template :: "jsval list \<Rightarrow> thrown + string list" where
  "template vs = collect (map ToString vs)"

section \<open>The error class\<close>

text \<open>\<open>isAuthError()\<close>: the code is one of the four listed strings.\<close>

definition isAuthError :: "ZilligonError \<Rightarrow> bool" where
  "isAuthError e =
     (code e \<in> set [Str ''INVALID_TOKEN'', Str ''INVALID_API_KEY'', Str ''TOKEN_EXPIRED'',
                     Str ''UNAUTHORIZED''])"

text \<open>
  The entries of the exported table \<open>ErrorCodes\<close> that stand under its comment
  \<open>// Authentication\<close>, in the table's order.
\<close>

definition ErrorCodes_Authentication :: "jsval list" where
  "ErrorCodes_Authentication =
     [Str ''INVALID_TOKEN'', Str ''INVALID_API_KEY'', Str ''TOKEN_EXPIRED'',
      Str ''TOKEN_REVOKED'', Str ''UNAUTHORIZED'']"

section \<open>The client and its construction\<close>

text \<open>
  The configuration object as the caller passes it and as the constructor stores it
  (defaults filled in). The pluggable \<open>fetch\<close> is not a field here: the transport is
  the world's (below), whichever function performs it. The platform is one that has a
  global \<open>fetch\<close> (Node from version 18, Deno, Bun, edge runtimes), so that the
  default \<open>globalThis.fetch.bind(globalThis)\<close> is there when the caller passes none.
\<close>

record ZilligonConfig =
  apiKey :: jsval
  baseUrl :: jsval
  timeout :: jsval
  debug :: jsval

record ZilligonClient =
  config :: ZilligonConfig
  accessToken :: jsval
  refreshToken :: jsval
  tokenExpiresAt :: jsval

definition DEFAULT_BASE_URL :: string where
  "DEFAULT_BASE_URL = ''https://api.zilligon.com''"

definition DEFAULT_TIMEOUT :: int where
  "DEFAULT_TIMEOUT = 30000"

text \<open>
  \<open>new ZilligonClient(config)\<close>: the fields are initialised to \<open>null\<close>, the
  configuration is stored with its defaults, and a falsy \<open>apiKey\<close> throws.
\<close>

definition constructor :: "ZilligonConfig \<Rightarrow> thrown + ZilligonClient" where
  "constructor cfg =
     (let stored = \<lparr> apiKey = apiKey cfg,
                      baseUrl = js_or (baseUrl cfg) (Str DEFAULT_BASE_URL),
                      timeout = js_or (timeout cfg) (Num DEFAULT_TIMEOUT),
                      debug = js_or (debug cfg) (Bool False) \<rparr>
      in if \<not> truthy (apiKey stored)
         then Inl (ZErr \<lparr> message = ''API key is required'', code = Str ''CONFIG_ERROR'',
                           statusCode = None, details = Undefined \<rparr>)
         else Inr \<lparr> config = stored, accessToken = Null, refreshToken = Null,
                     tokenExpiresAt = Null \<rparr>)"

section \<open>The world: clock, timers and transport\<close>

text \<open>
  What one call of the transport does. Left alone, its promise settles after \<open>latency\<close>
  milliseconds (\<open>None\<close>: never), with a response (\<open>ok\<close>, \<open>status\<close>, and what
  \<open>json()\<close> gives) or with a rejection. When its signal is aborted before that, it
  rejects at once with \<open>onAbort\<close>; the platform's \<open>fetch\<close> rejects with an
  \<open>AbortError\<close>. The client does nothing else to end a call: it only aborts the signal,
  so a transport that neither settles nor reacts to the signal would leave \<open>request\<close>
  pending for ever, and such a transport is not among the events here. Nor is a body
  that takes time to arrive: \<open>json()\<close> settles at once (the client guards it with no
  timer, having cleared the timer before it reads the body).
\<close>

datatype parsed = Json jsval | JsonThrows thrown

datatype outcome = Response bool int parsed | Rejected thrown

record event =
  latency :: "nat option"
  outcome :: outcome
  onAbort :: thrown

record fetch_call =
  url :: string
  httpMethod :: string
  authorization :: "string option"
  body :: "jsval option"

text \<open>
  The world a call runs in: the clock \<open>Date.now()\<close> reads, what the transport will
  do at its next calls (in call order), the calls made so far, and the pending timers.
  The client is sequential, so its behaviour is a function of this sequence of events.
\<close>

record world =
  now :: int
  net :: "event stream"
  calls :: "fetch_call list"
  timers :: "nat list"
  nextTimer :: nat

text \<open>Node's timers: a delay below 1, above 2147483647 or \<open>NaN\<close> is 1 ms.\<close>

definition timer_delay :: "jsval \<Rightarrow> nat" where
  "timer_delay v =
     (case number_of v of
        Num n \<Rightarrow> if n < 1 \<or> 2147483647 < n then 1 else nat n
      | _ \<Rightarrow> 1)"

definition setTimeout :: "world \<Rightarrow> nat \<times> world" where
  "setTimeout w =
     (nextTimer w, w\<lparr> timers := nextTimer w # timers w, nextTimer := Suc (nextTimer w) \<rparr>)"

definition clearTimeout :: "nat \<Rightarrow> world \<Rightarrow> world" where
  "clearTimeout t w = w\<lparr> timers := removeAll t (timers w) \<rparr>"

text \<open>A timer that fires is no longer pending.\<close>

definition fired :: "nat \<Rightarrow> world \<Rightarrow> world" where
  "fired t w = w\<lparr> timers := removeAll t (timers w) \<rparr>"

text \<open>
  \<open>await new Promise(resolve => setTimeout(resolve, ms))\<close>: a timer is set, the clock
  advances by its delay, the timer fires.
\<close>

definition sleep :: "jsval \<Rightarrow> world \<Rightarrow> world" where
  "sleep ms w =
     (case setTimeout w of
        (t, w1) \<Rightarrow> fired t (w1\<lparr> now := now w1 + int (timer_delay ms) \<rparr>))"

text \<open>
  \<open>await fetch(url, {..., signal})\<close> while the timer \<open>t\<close> is pending that aborts the
  signal after \<open>delay\<close> ms. A call that settles before the timer fires gives its
  outcome; otherwise the timer fires, the signal is aborted and the call rejects with
  what the transport rejects an aborted call with. A tie goes to the timer.
\<close>

definition fetch :: "fetch_call \<Rightarrow> nat \<Rightarrow> nat \<Rightarrow> world \<Rightarrow> outcome \<times> world" where
  "fetch call t delay w =
     (let e = shd (net w);
          w1 = w\<lparr> net := stl (net w), calls := calls w @ [call] \<rparr>;
          aborted = (Rejected (onAbort e), fired t (w1\<lparr> now := now w1 + int delay \<rparr>))
      in case latency e of
           None \<Rightarrow> aborted
         | Some l \<Rightarrow> if l < delay then (outcome e, w1\<lparr> now := now w1 + int l \<rparr>) else aborted)"

section \<open>The request executor\<close>

text \<open>
  The envelope check of \<open>request\<close>, from the parsed body \<open>data\<close> to the thrown value or
  the returned \<open>data.data\<close>. Building the \<open>ZilligonError\<close> converts its message to a
  string (\<open>super(message)\<close>), which can throw. The debug line
  \<open>JSON.stringify(data.data).slice(0, 200)\<close> is evaluated whether or not debugging is
  on, and \<open>JSON.stringify(undefined)\<close> is \<open>undefined\<close>, which has no \<open>slice\<close>.
\<close>

definition unwrap :: "bool \<Rightarrow> int \<Rightarrow> jsval \<Rightarrow> thrown + jsval" where
  "unwrap ok status data =
     (case (if \<not> ok then Inr True
            else case getProp data ''success'' of Inl t \<Rightarrow> Inl t | Inr v \<Rightarrow> Inr (\<not> truthy v)) of
        Inl t \<Rightarrow> Inl t
      | Inr True \<Rightarrow>
          (case getProp data ''error'' of
             Inl t \<Rightarrow> Inl t
           | Inr err \<Rightarrow>
               (case ToString (js_or (optGet err ''message'')
                                 (Str (''Request failed with status '' @ string_of_int status))) of
                  Inl t \<Rightarrow> Inl t
                | Inr msg \<Rightarrow>
                    Inl (ZErr \<lparr> message = msg,
                                 code = js_or (optGet err ''code'') (Str ''API_ERROR''),
                                 statusCode = Some status,
                                 details = optGet err ''details'' \<rparr>)))
      | Inr False \<Rightarrow>
          (case member data ''data'' of
             Undefined \<Rightarrow> Inl (cannot_read Undefined ''slice'')
           | v \<Rightarrow> Inr v))"

text \<open>The \<open>catch\<close> block of \<open>request\<close>: what is rethrown for a caught value.\<close>

fun classify :: "thrown \<Rightarrow> ZilligonError" where
  "classify (ZErr e) = e"
| "classify (JsError name msg) =
     (if name = ''AbortError''
      then \<lparr> message = ''Request timed out'', code = Str ''TIMEOUT'',
             statusCode = None, details = Undefined \<rparr>
      else \<lparr> message = msg, code = Str ''NETWORK_ERROR'',
             statusCode = None, details = Undefined \<rparr>)"
| "classify NonError =
     \<lparr> message = ''Unknown error'', code = Str ''NETWORK_ERROR'',
       statusCode = None, details = Undefined \<rparr>"

text \<open>
  \<open>request\<close> from the point where the headers are built: the timer, the transport call,
  the envelope check and the \<open>catch\<close>. The argument \<open>auth\<close> is the \<open>Authorization\<close>
  header, if one was added. The debug line before the timer serialises a truthy body,
  which gives a string for every value of \<open>jsval\<close>; what \<open>log\<close> prints is not part of
  the world.
\<close>

definition send ::
  "ZilligonConfig \<Rightarrow> string \<Rightarrow> string \<Rightarrow> jsval \<Rightarrow> string option \<Rightarrow> world \<Rightarrow> (thrown + jsval) \<times> world"
where
  "send cfg meth path bdy auth w =
     (case setTimeout w of
        (timeoutId, w1) \<Rightarrow>
          (case fetch \<lparr> url = text_of (baseUrl cfg) @ path, httpMethod = meth, authorization = auth,
                        body = (if truthy bdy then Some bdy else None) \<rparr>
                  timeoutId (timer_delay (timeout cfg)) w1 of
             (Rejected t, w2) \<Rightarrow> (Inl (ZErr (classify t)), clearTimeout timeoutId w2)
           | (Response ok status p, w2) \<Rightarrow>
               (case p of
                  JsonThrows t \<Rightarrow>
                    (Inl (ZErr (classify t)), clearTimeout timeoutId (clearTimeout timeoutId w2))
                | Json data \<Rightarrow>
                    (case unwrap ok status data of
                       Inl t \<Rightarrow>
                         (Inl (ZErr (classify t)), clearTimeout timeoutId (clearTimeout timeoutId w2))
                     | Inr v \<Rightarrow> (Inr v, clearTimeout timeoutId w2)))))"

section \<open>The token lifecycle\<close>

text \<open>
  \<open>authenticate\<close> and \<open>refreshAccessToken\<close> call \<open>request\<close> with \<open>skipAuth: true\<close>, which
  is \<open>send\<close> with no \<open>Authorization\<close> header. The three assignments follow the awaited
  response, one after the other: \<open>response.accessToken\<close> throws when the payload is
  \<open>null\<close>, before anything is assigned, and \<open>response.expiresIn * 1000\<close> throws when the
  lifetime cannot be converted to a number, after the first two fields are assigned.
\<close>

definition store_tokens :: "jsval \<Rightarrow> ZilligonClient \<Rightarrow> world \<Rightarrow> (thrown + unit) \<times> ZilligonClient \<times> world" where
  "store_tokens response s w =
     (if nullish response then (Inl (cannot_read response ''accessToken''), s, w)
      else
        (let s1 = s\<lparr> accessToken := member response ''accessToken'',
                     refreshToken := member response ''refreshToken'' \<rparr>
         in case js_mul (member response ''expiresIn'') (Num 1000) of
              Inl t \<Rightarrow> (Inl t, s1, w)
            | Inr p \<Rightarrow> (Inr (), s1\<lparr> tokenExpiresAt := num_add (Num (now w)) p \<rparr>, w)))"

definition authenticate :: "ZilligonClient \<Rightarrow> world \<Rightarrow> (thrown + unit) \<times> ZilligonClient \<times> world" where
  "authenticate s w =
     (case send (config s) ''POST'' ''/v1/auth/token'' (Obj [(''apiKey'', apiKey (config s))]) None w of
        (Inl t, w1) \<Rightarrow> (Inl t, s, w1)
      | (Inr response, w1) \<Rightarrow> store_tokens response s w1)"

definition refreshAccessToken :: "ZilligonClient \<Rightarrow> world \<Rightarrow> (thrown + unit) \<times> ZilligonClient \<times> world" where
  "refreshAccessToken s w =
     (case send (config s) ''POST'' ''/v1/auth/refresh'' (Obj [(''refreshToken'', refreshToken s)]) None w of
        (Inl t, w1) \<Rightarrow> (Inl t, s, w1)
      | (Inr response, w1) \<Rightarrow> store_tokens response s w1)"

text \<open>The test at the head of \<open>ensureValidToken\<close>, at clock reading \<open>t\<close>.\<close>

definition isValid :: "ZilligonClient \<Rightarrow> int \<Rightarrow> bool" where
  "isValid s t =
     (truthy (accessToken s) \<and> truthy (tokenExpiresAt s) \<and>
      js_lt (Num t) (js_sub (tokenExpiresAt s) (Num 60000)))"

text \<open>\<open>isAuthenticated()\<close>, at clock reading \<open>t\<close>.\<close>

definition isAuthenticated :: "ZilligonClient \<Rightarrow> int \<Rightarrow> bool" where
  "isAuthenticated s t =
     (truthy (accessToken s) \<and> truthy (tokenExpiresAt s) \<and> js_lt (Num t) (tokenExpiresAt s))"

text \<open>The last two lines of \<open>ensureValidToken\<close>.\<close>

definition authenticate_and_return :: "ZilligonClient \<Rightarrow> world \<Rightarrow> (thrown + jsval) \<times> ZilligonClient \<times> world" where
  "authenticate_and_return s w =
     (case authenticate s w of
        (Inl t, s1, w1) \<Rightarrow> (Inl t, s1, w1)
      | (Inr u, s1, w1) \<Rightarrow> (Inr (accessToken s1), s1, w1))"

definition ensureValidToken :: "ZilligonClient \<Rightarrow> world \<Rightarrow> (thrown + jsval) \<times> ZilligonClient \<times> world" where
  "ensureValidToken s w =
     (if isValid s (now w) then (Inr (accessToken s), s, w)
      else if truthy (refreshToken s) then
        (case refreshAccessToken s w of
           (Inr u, s1, w1) \<Rightarrow>
             if truthy (accessToken s1) then (Inr (accessToken s1), s1, w1)
             else authenticate_and_return s1 w1
         | (Inl t, s1, w1) \<Rightarrow> authenticate_and_return s1 w1)
      else authenticate_and_return s w)"

text \<open>
  \<open>request(..., path, body, {skipAuth})\<close>, the HTTP verb first. The header
  \<open>`Bearer ${token}`\<close> is built before the \<open>try\<close>: when the token cannot be converted
  to a string, the TypeError is thrown as it is and no transport call is made.
\<close>

definition request ::
  "string \<Rightarrow> string \<Rightarrow> jsval \<Rightarrow> bool \<Rightarrow> ZilligonClient \<Rightarrow> world \<Rightarrow> (thrown + jsval) \<times> ZilligonClient \<times> world"
where
  "request meth path bdy skipAuth s w =
     (if \<not> skipAuth then
        (case ensureValidToken s w of
           (Inl t, s1, w1) \<Rightarrow> (Inl t, s1, w1)
         | (Inr token, s1, w1) \<Rightarrow>
             (case ToString token of
                Inl t \<Rightarrow> (Inl t, s1, w1)
              | Inr tk \<Rightarrow>
                  (case send (config s1) meth path bdy (Some (''Bearer '' @ tk)) w1 of
                     (r, w2) \<Rightarrow> (r, s1, w2))))
      else (case send (config s) meth path bdy None w of (r, w1) \<Rightarrow> (r, s, w1)))"

section \<open>The clock never runs backwards\<close>

lemma now_setTimeout: "setTimeout w = (t, w1) \<Longrightarrow> now w1 = now w"
  by (auto simp: setTimeout_def)

lemma now_clearTimeout: "now (clearTimeout t w) = now w"
  by (simp add: clearTimeout_def)

lemma now_fetch: "fetch call t d w = (out, w1) \<Longrightarrow> now w \<le> now w1"
  by (auto simp: fetch_def Let_def fired_def split: option.splits if_splits)

lemma now_send: "send cfg m p b a w = (r, w1) \<Longrightarrow> now w \<le> now w1"
  unfolding send_def
  by (auto simp: now_clearTimeout split: prod.splits outcome.splits parsed.splits sum.splits
      dest!: now_setTimeout now_fetch)

lemma now_store_tokens: "store_tokens d s w = (r, s1, w1) \<Longrightarrow> w1 = w"
  by (auto simp: store_tokens_def Let_def split: if_splits sum.splits)

lemma now_authenticate: "authenticate s w = (r, s1, w1) \<Longrightarrow> now w \<le> now w1"
  unfolding authenticate_def
  by (auto split: prod.splits sum.splits dest!: now_send now_store_tokens)

lemma now_refreshAccessToken: "refreshAccessToken s w = (r, s1, w1) \<Longrightarrow> now w \<le> now w1"
  unfolding refreshAccessToken_def
  by (auto split: prod.splits sum.splits dest!: now_send now_store_tokens)

lemma now_authenticate_and_return: "authenticate_and_return s w = (r, s1, w1) \<Longrightarrow> now w \<le> now w1"
  unfolding authenticate_and_return_def
  by (auto split: prod.splits sum.splits dest!: now_authenticate)

lemma now_ensureValidToken: "ensureValidToken s w = (r, s1, w1) \<Longrightarrow> now w \<le> now w1"
  unfolding ensureValidToken_def
  by (auto split: prod.splits sum.splits if_splits
      dest!: now_refreshAccessToken now_authenticate_and_return)

lemma now_request: "request m p b sk s w = (r, s1, w1) \<Longrightarrow> now w \<le> now w1"
  unfolding request_def
  by (auto split: prod.splits sum.splits if_splits
      dest!: now_ensureValidToken now_send)

section \<open>Media generation: submit, poll, wait\<close>

text \<open>\<open>submitMediaJob(input)\<close>; the two spreads add a property only for a truthy value.\<close>

definition submitMediaJob :: "jsval \<Rightarrow> ZilligonClient \<Rightarrow> world \<Rightarrow> (thrown + jsval) \<times> ZilligonClient \<times> world" where
  "submitMediaJob input s w =
     request ''POST'' ''/v1/media/generate''
       (Obj ([(''type'', member input ''type''),
              (''model'', member input ''model''),
              (''prompt'', member input ''prompt''),
              (''options'',
                 Obj [(''aspectRatio'', member input ''aspectRatio''),
                      (''duration'', member input ''duration''),
                      (''voice'', member input ''voice''),
                      (''style'', member input ''style''),
                      (''negativePrompt'', member input ''negativePrompt'')])]
             @ (if truthy (member input ''text'') then [(''text'', member input ''text'')] else [])
             @ (if truthy (member input ''imageUrl'') then [(''imageUrl'', member input ''imageUrl'')] else [])))
       False s w"

text \<open>
  \<open>getMediaJobStatus(jobId)\<close>: the path is a template literal, evaluated before
  \<open>request\<close> is called.
\<close>

definition getMediaJobStatus :: "jsval \<Rightarrow> ZilligonClient \<Rightarrow> world \<Rightarrow> (thrown + jsval) \<times> ZilligonClient \<times> world" where
  "getMediaJobStatus jobId s w =
     (case ToString jobId of
        Inl t \<Rightarrow> (Inl t, s, w)
      | Inr j \<Rightarrow> request ''GET'' (''/v1/media/status/'' @ j) Undefined False s w)"

definition maxWaitMs :: int where
  "maxWaitMs = 300000"

definition pollIntervalMs :: int where
  "pollIntervalMs = 2000"

text \<open>The two results \<open>generateMediaAndWait\<close> makes up itself.\<close>

definition synthesized :: "jsval \<Rightarrow> string \<Rightarrow> jsval" where
  "synthesized input msg =
     Obj [(''success'', Bool False), (''mimeType'', Str []), (''provider'', Str ''unknown''),
          (''modelId'', js_or (member input ''model'') (Str ''unknown'')),
          (''error'', Str msg)]"

lemma now_getMediaJobStatus: "getMediaJobStatus j s w = (r, s1, w1) \<Longrightarrow> now w \<le> now w1"
  unfolding getMediaJobStatus_def
  by (auto split: sum.splits dest: now_request)

lemma now_sleep: "now (sleep (Num pollIntervalMs) w) = now w + 2000"
  by (simp add: sleep_def setTimeout_def fired_def timer_delay_def number_of_def pollIntervalMs_def)

text \<open>
  The \<open>while\<close> loop of \<open>generateMediaAndWait\<close>, entered at its condition. Reading
  \<open>status.status\<close> throws when the payload is \<open>null\<close>. The last statement of a round
  that has not returned is the debug line
  \<open>this.log(`Job ${job.jobId} progress: ${status.progress}%`)\<close>, whose argument is
  evaluated whether or not debugging is on.
\<close>

function poll_loop ::
  "jsval \<Rightarrow> jsval \<Rightarrow> int \<Rightarrow> ZilligonClient \<Rightarrow> world \<Rightarrow> (thrown + jsval) \<times> ZilligonClient \<times> world"
where
  "poll_loop input jobId startTime s w =
     (if now w - startTime < maxWaitMs then
        (case getMediaJobStatus jobId s (sleep (Num pollIntervalMs) w) of
           (Inl t, s1, w1) \<Rightarrow> (Inl t, s1, w1)
         | (Inr status, s1, w1) \<Rightarrow>
             (case getProp status ''status'' of
                Inl t \<Rightarrow> (Inl t, s1, w1)
              | Inr st \<Rightarrow>
                  if st = Str ''completed'' \<and> truthy (member status ''result'')
                  then (Inr (member status ''result''), s1, w1)
                  else if st = Str ''failed''
                  then (Inr (synthesized input ''Media generation failed''), s1, w1)
                  else (case template [jobId, member status ''progress''] of
                          Inl t \<Rightarrow> (Inl t, s1, w1)
                        | Inr line \<Rightarrow> poll_loop input jobId startTime s1 w1)))
      else (Inr (synthesized input ''Media generation timed out''), s, w))"
  by pat_completeness auto
termination
proof (relation "measure (\<lambda>(input, jobId, startTime, s, w). nat (startTime + maxWaitMs - now w))")
  show "wf (measure (\<lambda>(input, jobId, startTime, s, w). nat (startTime + maxWaitMs - now w)))"
    by simp
next
  fix input jobId :: jsval and startTime :: int and s s1 :: ZilligonClient and w w1 :: world
    and r :: "thrown + jsval" and y :: "ZilligonClient \<times> world"
  assume running: "now w - startTime < maxWaitMs"
    and "(r, y) = getMediaJobStatus jobId s (sleep (Num pollIntervalMs) w)"
    and "(s1, w1) = y"
  then have "getMediaJobStatus jobId s (sleep (Num pollIntervalMs) w) = (r, s1, w1)"
    by simp
  then have "now w + 2000 \<le> now w1"
    using now_getMediaJobStatus now_sleep by fastforce
  with running
  show "((input, jobId, startTime, s1, w1), (input, jobId, startTime, s, w))
        \<in> measure (\<lambda>(input, jobId, startTime, s, w). nat (startTime + maxWaitMs - now w))"
    by simp
qed

text \<open>The object \<open>generateMediaAndWait\<close> passes to \<open>submitMediaJob\<close>.\<close>

definition job_spec :: "jsval \<Rightarrow> jsval" where
  "job_spec input =
     Obj [(''type'', member input ''type''),
          (''prompt'', js_or (js_or (member input ''prompt'') (member input ''text'')) (Str [])),
          (''model'', member input ''model''),
          (''aspectRatio'', member input ''aspectRatio''),
          (''duration'', member input ''duration''),
          (''voice'', member input ''voice''),
          (''text'', member input ''text''),
          (''negativePrompt'', member input ''negativePrompt''),
          (''style'', member input ''style''),
          (''imageUrl'', member input ''imageUrl'')]"

text \<open>
  \<open>generateMediaAndWait(input)\<close>: submit, evaluate the debug line
  \<open>this.log(`Media job submitted: ${job.jobId}, estimated time: ${job.estimatedTime}s`)\<close>
  (reading \<open>job.jobId\<close> throws when the payload is \<open>null\<close>, and the template literal
  when a conversion does), note the start time, poll.
\<close>

definition generateMediaAndWait :: "jsval \<Rightarrow> ZilligonClient \<Rightarrow> world \<Rightarrow> (thrown + jsval) \<times> ZilligonClient \<times> world" where
  "generateMediaAndWait input s w =
     (case submitMediaJob (job_spec input) s w of
        (Inl t, s1, w1) \<Rightarrow> (Inl t, s1, w1)
      | (Inr job, s1, w1) \<Rightarrow>
          (case getProp job ''jobId'' of
             Inl t \<Rightarrow> (Inl t, s1, w1)
           | Inr jobId \<Rightarrow>
               (case template [jobId, member job ''estimatedTime''] of
                  Inl t \<Rightarrow> (Inl t, s1, w1)
                | Inr line \<Rightarrow> poll_loop input jobId (now w1) s1 w1)))"

section \<open>Construction\<close>

text \<open>
  Claim C9. Constructing a client fails with a classified error of code \<open>CONFIG_ERROR\<close>
  exactly when the configuration has no secret (\<open>apiKey\<close> is \<open>undefined\<close>, \<open>null\<close> or
  the empty string: a falsy value), whatever the other fields are; with a secret it
  returns a client. In particular a configuration whose \<open>apiKey\<close> is \<open>undefined\<close>
  fails so for every choice of the other three fields.
\<close>

theorem constructor_CONFIG_ERROR:
  "(\<exists>e. constructor cfg = Inl (ZErr e) \<and> code e = Str ''CONFIG_ERROR'') = (\<not> truthy (apiKey cfg))
   \<and> (\<exists>c. constructor cfg = Inr c) = truthy (apiKey cfg)
   \<and> constructor \<lparr> apiKey = Undefined, baseUrl = b, timeout = t, debug = d \<rparr>
       = Inl (ZErr \<lparr> message = ''API key is required'', code = Str ''CONFIG_ERROR'',
                      statusCode = None, details = Undefined \<rparr>)"
  by (simp add: constructor_def Let_def)

section \<open>Error classification\<close>

text \<open>
  Claim C8, at the code \<open>TOKEN_REVOKED\<close>. The table \<open>ErrorCodes\<close> lists it among its
  authentication codes, and \<open>isAuthError()\<close> answers false for an error that carries it.
\<close>

theorem isAuthError_TOKEN_REVOKED:
  "Str ''TOKEN_REVOKED'' \<in> set ErrorCodes_Authentication
   \<and> \<not> isAuthError \<lparr> message = m, code = Str ''TOKEN_REVOKED'', statusCode = st, details = d \<rparr>"
  by (simp add: ErrorCodes_Authentication_def isAuthError_def)

section \<open>Validity of the stored token\<close>

text \<open>
  Claim C3 as stated fails: 50 seconds before the expiry instant \<open>isAuthenticated()\<close>
  answers true while the check of \<open>ensureValidToken\<close> answers false.
\<close>

theorem isAuthenticated_has_no_margin:
  "isAuthenticated
     \<lparr> config = \<lparr> apiKey = Str ''k'', baseUrl = Str DEFAULT_BASE_URL,
                   timeout = Num DEFAULT_TIMEOUT, debug = Bool False \<rparr>,
       accessToken = Str ''a'', refreshToken = Str ''r'', tokenExpiresAt = Num 100000 \<rparr> 50000
   \<and> \<not> isValid
     \<lparr> config = \<lparr> apiKey = Str ''k'', baseUrl = Str DEFAULT_BASE_URL,
                   timeout = Num DEFAULT_TIMEOUT, debug = Bool False \<rparr>,
       accessToken = Str ''a'', refreshToken = Str ''r'', tokenExpiresAt = Num 100000 \<rparr> 50000"
  by (simp add: isAuthenticated_def isValid_def js_lt_def js_sub_def number_of_def)

text \<open>
  Claim C3, amended. Both predicates are false while the fields still hold their initial
  \<open>null\<close>, and false when the stored expiry is \<open>NaN\<close>. With an access token \<open>a\<close> and an
  expiry instant \<open>e\<close> stored, the check of \<open>ensureValidToken\<close> is true exactly when the
  clock is more than 60000 ms before \<open>e\<close>, and \<open>isAuthenticated()\<close> is true exactly when
  the clock is before \<open>e\<close>, with no margin (in both, the token must be a non-empty
  string and the instant non-zero).
\<close>

theorem isValid_margin_isAuthenticated_none:
  "\<not> isValid (s\<lparr> accessToken := Null, tokenExpiresAt := Null \<rparr>) t
   \<and> \<not> isAuthenticated (s\<lparr> accessToken := Null, tokenExpiresAt := Null \<rparr>) t
   \<and> \<not> isValid (s\<lparr> tokenExpiresAt := NaN \<rparr>) t
   \<and> \<not> isAuthenticated (s\<lparr> tokenExpiresAt := NaN \<rparr>) t
   \<and> isValid (s\<lparr> accessToken := Str a, tokenExpiresAt := Num e \<rparr>) t
       = (a \<noteq> [] \<and> e \<noteq> 0 \<and> t < e - 60000)
   \<and> isAuthenticated (s\<lparr> accessToken := Str a, tokenExpiresAt := Num e \<rparr>) t
       = (a \<noteq> [] \<and> e \<noteq> 0 \<and> t < e)"
  by (simp add: isAuthenticated_def isValid_def js_lt_def js_sub_def number_of_def)

section \<open>Concrete clients and worlds\<close>

text \<open>
  A client as the constructor returns it for \<open>{ apiKey: 'zk_live_key' }\<close>, a world that
  starts at clock reading \<open>t\<close> with no call made and no timer pending, and a transport
  event that answers after \<open>l\<close> ms (and would reject an aborted call as the platform's
  \<open>fetch\<close> does).
\<close>

definition fresh_client :: ZilligonClient where
  "fresh_client =
     \<lparr> config = \<lparr> apiKey = Str ''zk_live_key'', baseUrl = Str DEFAULT_BASE_URL,
                   timeout = Num DEFAULT_TIMEOUT, debug = Bool False \<rparr>,
       accessToken = Null, refreshToken = Null, tokenExpiresAt = Null \<rparr>"

definition world_at :: "int \<Rightarrow> event stream \<Rightarrow> world" where
  "world_at t es = \<lparr> now = t, net = es, calls = [], timers = [], nextTimer = 0 \<rparr>"

definition abort_error :: thrown where
  "abort_error = JsError ''AbortError'' ''This operation was aborted''"

definition responds :: "nat \<Rightarrow> bool \<Rightarrow> int \<Rightarrow> parsed \<Rightarrow> event" where
  "responds l ok status p =
     \<lparr> latency = Some l, outcome = Response ok status p, onAbort = abort_error \<rparr>"

lemma fresh_client_constructed:
  "constructor \<lparr> apiKey = Str ''zk_live_key'', baseUrl = Undefined, timeout = Undefined,
                  debug = Undefined \<rparr> = Inr fresh_client"
  by (simp add: constructor_def fresh_client_def js_or_def)

declare poll_loop.simps [simp del]

lemmas run_simps =
  request_def send_def fresh_client_def world_at_def responds_def setTimeout_def
  fetch_def Let_def timer_delay_def number_of_def text_of_def DEFAULT_TIMEOUT_def
  DEFAULT_BASE_URL_def clearTimeout_def fired_def unwrap_def getProp_def optGet_def js_or_def
  cannot_read_def cannot_convert_def string_of_int_def digit_char_def abort_error_def

section \<open>Outcome classification of a request\<close>

lemma fetch_timely:
  "latency (shd (net w)) = Some l \<Longrightarrow> l < d \<Longrightarrow>
   fetch call t d w =
     (outcome (shd (net w)),
      w\<lparr> net := stl (net w), calls := calls w @ [call], now := now w + int l \<rparr>)"
  by (simp add: fetch_def Let_def)

lemma send_timely_response:
  assumes "latency (shd (net w)) = Some l" and "l < timer_delay (timeout cfg)"
    and "outcome (shd (net w)) = Response ok status (Json data)"
  shows "fst (send cfg m p b a w) =
           (case unwrap ok status data of Inl t \<Rightarrow> Inl (ZErr (classify t)) | Inr v \<Rightarrow> Inr v)"
  using assms
  by (simp add: send_def setTimeout_def fetch_timely split: sum.splits)

text \<open>
  With \<open>skipAuth\<close>, or with a token that is still valid and can be converted to a
  string, a request is one transport call.
\<close>

lemma request_direct:
  "skipAuth \<or> isValid s (now w) \<and> ToString (accessToken s) = Inr tk \<Longrightarrow>
   request m p b skipAuth s w =
     (case send (config s) m p b (if skipAuth then None else Some (''Bearer '' @ tk)) w of
        (r, w1) \<Rightarrow> (r, s, w1))"
  by (auto simp: request_def ensureValidToken_def)

lemma converts_Inr: "converts v \<Longrightarrow> \<exists>s. ToString v = Inr s"
  by (cases "ToString v") (simp_all add: converts_def)

lemma collect_Inl: "collect rs = Inl t \<Longrightarrow> Inl t \<in> set rs"
proof (induction rs)
  case Nil
  then show ?case by simp
next
  case (Cons r rs)
  then show ?case by (cases r) (auto split: sum.splits)
qed

lemma ToString_Inl: "ToString v = Inl t \<Longrightarrow> t = cannot_convert"
proof (induction v arbitrary: t)
  case (Arr xs)
  from Arr.prems have "collect (map (\<lambda>x. if nullish x then Inr [] else ToString x) xs) = Inl t"
    by (simp split: sum.splits)
  then have "Inl t \<in> set (map (\<lambda>x. if nullish x then Inr [] else ToString x) xs)"
    by (rule collect_Inl)
  then obtain x where "x \<in> set xs" and "ToString x = Inl t"
    by (auto split: if_splits)
  then show ?case by (rule Arr.IH)
qed (simp_all split: option.splits)

lemma not_converts_Inl: "\<not> converts v \<Longrightarrow> ToString v = Inl cannot_convert"
  using ToString_Inl[of v] by (cases "ToString v") (simp_all add: converts_def)

lemma not_converts_truthy: "\<not> converts v \<Longrightarrow> truthy v"
  by (cases v) (simp_all add: converts_def)

lemma unwrap_server_error:
  assumes "member data ''success'' = Bool False" and "member data ''error'' = Obj err"
    and "map_of err ''code'' = Some (Str X)" and "map_of err ''message'' = Some (Str Y)"
    and "X \<noteq> []" and "Y \<noteq> []" and "\<not> nullish data"
  shows "unwrap ok status data =
           Inl (ZErr \<lparr> message = Y, code = Str X, statusCode = Some status,
                         details = member (Obj err) ''details'' \<rparr>)"
  using assms by (simp add: unwrap_def getProp_def optGet_def js_or_def)

lemma unwrap_generic_error:
  assumes "\<not> ok \<or> \<not> truthy (member data ''success'')"
    and "\<not> truthy (optGet (member data ''error'') ''code'')" and "\<not> nullish data"
    and "converts (optGet (member data ''error'') ''message'')"
  shows "\<exists>e. unwrap ok status data = Inl (ZErr e) \<and> code e = Str ''API_ERROR''
             \<and> statusCode e = Some status"
proof -
  have "\<exists>msg. ToString (js_or (optGet (member data ''error'') ''message'')
                  (Str (''Request failed with status '' @ string_of_int status))) = Inr msg"
    using converts_Inr[OF assms(4)] by (simp add: js_or_def)
  then obtain msg where "ToString (js_or (optGet (member data ''error'') ''message'')
                  (Str (''Request failed with status '' @ string_of_int status))) = Inr msg"
    by blast
  with assms(1-3) show ?thesis
    by (auto simp: unwrap_def getProp_def js_or_def)
qed

lemma unwrap_message_throws:
  assumes "\<not> ok \<or> \<not> truthy (member data ''success'')" and "\<not> nullish data"
    and "\<not> converts (optGet (member data ''error'') ''message'')"
  shows "unwrap ok status data = Inl cannot_convert"
proof -
  have "ToString (js_or (optGet (member data ''error'') ''message'')
                  (Str (''Request failed with status '' @ string_of_int status))) = Inl cannot_convert"
    using not_converts_Inl[OF assms(3)] not_converts_truthy[OF assms(3)] by (simp add: js_or_def)
  with assms(1,2) show ?thesis
    by (auto simp: unwrap_def getProp_def)
qed

text \<open>
  Claim C5 as stated fails, at five responses. An error object with an empty code fails
  with \<open>API_ERROR\<close>, not with the empty code; one with an empty message fails with the
  generic message; one whose message is an object with an own \<open>toString\<close> property
  fails with \<open>NETWORK_ERROR\<close> and no status, whatever its code; a 502 whose body is not
  JSON, and a 502 whose body is the JSON \<open>null\<close>, fail with \<open>NETWORK_ERROR\<close> and no
  status.
\<close>

theorem request_error_classification_counterexample:
  "fst (request ''GET'' ''/v1/agents/me'' Undefined True fresh_client
         (world_at 0 (sconst (responds 20 False 400
            (Json (Obj [(''success'', Bool False),
                        (''error'', Obj [(''code'', Str []), (''message'', Str ''Y'')])]))))))
     = Inl (ZErr \<lparr> message = ''Y'', code = Str ''API_ERROR'', statusCode = Some 400,
                    details = Undefined \<rparr>)
   \<and> fst (request ''GET'' ''/v1/agents/me'' Undefined True fresh_client
         (world_at 0 (sconst (responds 20 False 400
            (Json (Obj [(''success'', Bool False),
                        (''error'', Obj [(''code'', Str ''X''), (''message'', Str [])])]))))))
     = Inl (ZErr \<lparr> message = ''Request failed with status 400'', code = Str ''X'',
                    statusCode = Some 400, details = Undefined \<rparr>)
   \<and> fst (request ''GET'' ''/v1/agents/me'' Undefined True fresh_client
         (world_at 0 (sconst (responds 20 False 400
            (Json (Obj [(''success'', Bool False),
                        (''error'', Obj [(''code'', Str ''X''),
                                         (''message'', Obj [(''toString'', Null)])])]))))))
     = Inl (ZErr \<lparr> message = ''Cannot convert object to primitive value'',
                    code = Str ''NETWORK_ERROR'', statusCode = None, details = Undefined \<rparr>)
   \<and> fst (request ''GET'' ''/v1/agents/me'' Undefined True fresh_client
         (world_at 0 (sconst (responds 20 False 502
            (JsonThrows (JsError ''SyntaxError'' ''Unexpected token < in JSON at position 0''))))))
     = Inl (ZErr \<lparr> message = ''Unexpected token < in JSON at position 0'',
                    code = Str ''NETWORK_ERROR'', statusCode = None, details = Undefined \<rparr>)
   \<and> fst (request ''GET'' ''/v1/agents/me'' Undefined True fresh_client
         (world_at 0 (sconst (responds 20 False 502 (Json Null)))))
     = Inl (ZErr (classify (cannot_read Null ''error'')))
   \<and> code (classify (cannot_read Null ''error'')) = Str ''NETWORK_ERROR''
   \<and> statusCode (classify (cannot_read Null ''error'')) = None"
  by (simp add: run_simps)

text \<open>
  Claim C5, amended. Take a request whose own transport call is made (with \<open>skipAuth\<close>
  at once, otherwise after \<open>ensureValidToken\<close> has returned a token that can be
  converted to a string, leaving client \<open>s'\<close> and world \<open>w'\<close>) and is answered in time
  by a response whose body parses to a JSON value other than \<open>null\<close>. If the body has
  \<open>success: false\<close> and an error object with a non-empty code \<open>X\<close> and a non-empty
  message \<open>Y\<close>, both strings, the request fails with code \<open>X\<close>, message \<open>Y\<close> and the
  HTTP status, whatever that status is. If the response is not OK or \<open>success\<close> is
  falsy, the body supplies no (truthy) error code, and its error message, if it has one,
  can be converted to a string, the request fails with code \<open>API_ERROR\<close> carrying the
  HTTP status. If the response is not OK or \<open>success\<close> is falsy and the error message
  cannot be converted to a string, the request fails with code \<open>NETWORK_ERROR\<close> and
  carries no status, whatever code the body supplies.
\<close>

theorem request_error_classification:
  assumes "skipAuth \<and> s' = s \<and> w' = w
           \<or> \<not> skipAuth \<and> (\<exists>token. ensureValidToken s w = (Inr token, s', w') \<and> converts token)"
    and "latency (shd (net w')) = Some l" and "l < timer_delay (timeout (config s'))"
    and "outcome (shd (net w')) = Response ok status (Json data)"
    and "\<not> nullish data"
  shows "(member data ''success'' = Bool False \<and> member data ''error'' = Obj err
            \<and> map_of err ''code'' = Some (Str X) \<and> map_of err ''message'' = Some (Str Y)
            \<and> X \<noteq> [] \<and> Y \<noteq> []
          \<longrightarrow> (\<exists>e. fst (request m p b skipAuth s w) = Inl (ZErr e)
                 \<and> code e = Str X \<and> message e = Y \<and> statusCode e = Some status))
      \<and> ((\<not> ok \<or> \<not> truthy (member data ''success''))
            \<and> \<not> truthy (optGet (member data ''error'') ''code'')
            \<and> converts (optGet (member data ''error'') ''message'')
          \<longrightarrow> (\<exists>e. fst (request m p b skipAuth s w) = Inl (ZErr e)
                 \<and> code e = Str ''API_ERROR'' \<and> statusCode e = Some status))
      \<and> ((\<not> ok \<or> \<not> truthy (member data ''success''))
            \<and> \<not> converts (optGet (member data ''error'') ''message'')
          \<longrightarrow> fst (request m p b skipAuth s w)
                = Inl (ZErr \<lparr> message = ''Cannot convert object to primitive value'',
                               code = Str ''NETWORK_ERROR'', statusCode = None,
                               details = Undefined \<rparr>))"
proof -
  from assms(1) obtain a where req: "fst (request m p b skipAuth s w) = fst (send (config s') m p b a w')"
  proof
    assume "skipAuth \<and> s' = s \<and> w' = w"
    then have "fst (request m p b skipAuth s w) = fst (send (config s') m p b None w')"
      by (simp add: request_def split: prod.splits)
    then show ?thesis by (rule that)
  next
    assume "\<not> skipAuth \<and> (\<exists>token. ensureValidToken s w = (Inr token, s', w') \<and> converts token)"
    then obtain token where "\<not> skipAuth" and "ensureValidToken s w = (Inr token, s', w')"
      and "converts token"
      by blast
    moreover from converts_Inr[OF this(3)] obtain tk where "ToString token = Inr tk"
      by blast
    ultimately have "fst (request m p b skipAuth s w)
        = fst (send (config s') m p b (Some (''Bearer '' @ tk)) w')"
      by (simp add: request_def split: prod.splits)
    then show ?thesis by (rule that)
  qed
  have snd: "fst (send (config s') m p b a w') =
           (case unwrap ok status data of Inl t \<Rightarrow> Inl (ZErr (classify t)) | Inr v \<Rightarrow> Inr v)"
    using assms(2-4) by (rule send_timely_response)
  show ?thesis
  proof (intro conjI impI)
    assume h: "member data ''success'' = Bool False \<and> member data ''error'' = Obj err
            \<and> map_of err ''code'' = Some (Str X) \<and> map_of err ''message'' = Some (Str Y)
            \<and> X \<noteq> [] \<and> Y \<noteq> []"
    with assms(5) have "unwrap ok status data =
           Inl (ZErr \<lparr> message = Y, code = Str X, statusCode = Some status,
                         details = member (Obj err) ''details'' \<rparr>)"
      by (intro unwrap_server_error) auto
    with req snd show "\<exists>e. fst (request m p b skipAuth s w) = Inl (ZErr e)
                 \<and> code e = Str X \<and> message e = Y \<and> statusCode e = Some status"
      by simp
  next
    assume h: "(\<not> ok \<or> \<not> truthy (member data ''success''))
            \<and> \<not> truthy (optGet (member data ''error'') ''code'')
            \<and> converts (optGet (member data ''error'') ''message'')"
    with assms(5) obtain e where "unwrap ok status data = Inl (ZErr e)"
      and "code e = Str ''API_ERROR''" and "statusCode e = Some status"
      using unwrap_generic_error by blast
    with req snd show "\<exists>e. fst (request m p b skipAuth s w) = Inl (ZErr e)
                 \<and> code e = Str ''API_ERROR'' \<and> statusCode e = Some status"
      by simp
  next
    assume h: "(\<not> ok \<or> \<not> truthy (member data ''success''))
            \<and> \<not> converts (optGet (member data ''error'') ''message'')"
    with assms(5) have "unwrap ok status data = Inl cannot_convert"
      by (intro unwrap_message_throws) auto
    with req snd show "fst (request m p b skipAuth s w)
                = Inl (ZErr \<lparr> message = ''Cannot convert object to primitive value'',
                               code = Str ''NETWORK_ERROR'', statusCode = None,
                               details = Undefined \<rparr>)"
      by (simp add: cannot_convert_def)
  qed
qed

theorem request_error_classification_witness:
  "(\<exists>e. fst (request ''GET'' ''/v1/feed/global'' Undefined True fresh_client
             (world_at 0 (sconst (responds 20 False 429
                (Json (Obj [(''success'', Bool False),
                            (''error'', Obj [(''code'', Str ''RATE_LIMITED''),
                                             (''message'', Str ''Slow down'')])]))))))
          = Inl (ZErr e)
        \<and> code e = Str ''RATE_LIMITED'' \<and> message e = ''Slow down'' \<and> statusCode e = Some 429)
   \<and> (\<exists>e. fst (request ''GET'' ''/v1/feed/global'' Undefined True fresh_client
             (world_at 0 (sconst (responds 20 False 500 (Json (Obj [(''success'', Bool False)]))))))
          = Inl (ZErr e)
        \<and> code e = Str ''API_ERROR'' \<and> statusCode e = Some 500)
   \<and> fst (request ''GET'' ''/v1/feed/global'' Undefined True fresh_client
             (world_at 0 (sconst (responds 20 True 200
                (Json (Obj [(''success'', Bool False),
                            (''error'', Obj [(''code'', Str ''RATE_LIMITED''),
                                             (''message'', Arr [Obj [(''toString'', Num 1)]])])]))))))
       = Inl (ZErr \<lparr> message = ''Cannot convert object to primitive value'',
                      code = Str ''NETWORK_ERROR'', statusCode = None, details = Undefined \<rparr>)"
proof -
  have first: "\<exists>e. fst (request ''GET'' ''/v1/feed/global'' Undefined True fresh_client
             (world_at 0 (sconst (responds 20 False 429
                (Json (Obj [(''success'', Bool False),
                            (''error'', Obj [(''code'', Str ''RATE_LIMITED''),
                                             (''message'', Str ''Slow down'')])]))))))
          = Inl (ZErr e)
        \<and> code e = Str ''RATE_LIMITED'' \<and> message e = ''Slow down'' \<and> statusCode e = Some 429"
    using request_error_classification
      [where skipAuth = True and s = fresh_client and l = 20 and ok = False and status = 429
         and s' = fresh_client
         and w = "world_at 0 (sconst (responds 20 False 429
                (Json (Obj [(''success'', Bool False),
                            (''error'', Obj [(''code'', Str ''RATE_LIMITED''),
                                             (''message'', Str ''Slow down'')])]))))"
         and w' = "world_at 0 (sconst (responds 20 False 429
                (Json (Obj [(''success'', Bool False),
                            (''error'', Obj [(''code'', Str ''RATE_LIMITED''),
                                             (''message'', Str ''Slow down'')])]))))"
         and data = "Obj [(''success'', Bool False),
                            (''error'', Obj [(''code'', Str ''RATE_LIMITED''),
                                             (''message'', Str ''Slow down'')])]"
         and err = "[(''code'', Str ''RATE_LIMITED''), (''message'', Str ''Slow down'')]"
         and X = "''RATE_LIMITED''" and Y = "''Slow down''"
         and m = "''GET''" and p = "''/v1/feed/global''" and b = Undefined]
    by (simp add: world_at_def responds_def fresh_client_def timer_delay_def number_of_def
        DEFAULT_TIMEOUT_def)
  have second: "\<exists>e. fst (request ''GET'' ''/v1/feed/global'' Undefined True fresh_client
             (world_at 0 (sconst (responds 20 False 500 (Json (Obj [(''success'', Bool False)]))))))
          = Inl (ZErr e)
        \<and> code e = Str ''API_ERROR'' \<and> statusCode e = Some 500"
    using request_error_classification
      [where skipAuth = True and s = fresh_client and l = 20 and ok = False and status = 500
         and s' = fresh_client
         and w = "world_at 0 (sconst (responds 20 False 500 (Json (Obj [(''success'', Bool False)]))))"
         and w' = "world_at 0 (sconst (responds 20 False 500 (Json (Obj [(''success'', Bool False)]))))"
         and data = "Obj [(''success'', Bool False)]"
         and m = "''GET''" and p = "''/v1/feed/global''" and b = Undefined]
    by (simp add: world_at_def responds_def fresh_client_def timer_delay_def number_of_def
        DEFAULT_TIMEOUT_def optGet_def converts_def)
  have third: "fst (request ''GET'' ''/v1/feed/global'' Undefined True fresh_client
             (world_at 0 (sconst (responds 20 True 200
                (Json (Obj [(''success'', Bool False),
                            (''error'', Obj [(''code'', Str ''RATE_LIMITED''),
                                             (''message'', Arr [Obj [(''toString'', Num 1)]])])]))))))
       = Inl (ZErr \<lparr> message = ''Cannot convert object to primitive value'',
                      code = Str ''NETWORK_ERROR'', statusCode = None, details = Undefined \<rparr>)"
    using request_error_classification
      [where skipAuth = True and s = fresh_client and l = 20 and ok = True and status = 200
         and s' = fresh_client
         and w = "world_at 0 (sconst (responds 20 True 200
                (Json (Obj [(''success'', Bool False),
                            (''error'', Obj [(''code'', Str ''RATE_LIMITED''),
                                             (''message'', Arr [Obj [(''toString'', Num 1)]])])]))))"
         and w' = "world_at 0 (sconst (responds 20 True 200
                (Json (Obj [(''success'', Bool False),
                            (''error'', Obj [(''code'', Str ''RATE_LIMITED''),
                                             (''message'', Arr [Obj [(''toString'', Num 1)]])])]))))"
         and data = "Obj [(''success'', Bool False),
                            (''error'', Obj [(''code'', Str ''RATE_LIMITED''),
                                             (''message'', Arr [Obj [(''toString'', Num 1)]])])]"
         and m = "''GET''" and p = "''/v1/feed/global''" and b = Undefined]
    by (simp add: world_at_def responds_def fresh_client_def timer_delay_def number_of_def
        DEFAULT_TIMEOUT_def optGet_def converts_def)
  from first second third show ?thesis by (intro conjI)
qed

section \<open>Credential acquisition\<close>

text \<open>Envelopes and clients for concrete runs.\<close>

definition failure_body :: "string \<Rightarrow> string \<Rightarrow> parsed" where
  "failure_body c m =
     Json (Obj [(''success'', Bool False), (''error'', Obj [(''code'', Str c), (''message'', Str m)])])"

definition success_body :: "jsval \<Rightarrow> parsed" where
  "success_body d = Json (Obj [(''success'', Bool True), (''data'', d)])"

definition stale_client :: ZilligonClient where
  "stale_client =
     fresh_client\<lparr> accessToken := Str ''old'', refreshToken := Str ''oldR'',
                    tokenExpiresAt := Num 500 \<rparr>"

definition valid_client :: ZilligonClient where
  "valid_client =
     fresh_client\<lparr> accessToken := Str ''tok'', refreshToken := Str ''r'',
                    tokenExpiresAt := Num 3600000 \<rparr>"

lemmas example_simps = failure_body_def success_body_def stale_client_def valid_client_def

lemmas token_simps =
  ensureValidToken_def authenticate_and_return_def authenticate_def refreshAccessToken_def
  store_tokens_def isValid_def js_lt_def js_sub_def js_mul_def num_add_def

text \<open>What a successful \<open>send\<close> says about the transport event it consumed.\<close>

lemma unwrap_Inr:
  "unwrap ok status data = Inr v \<Longrightarrow>
   ok \<and> \<not> nullish data \<and> truthy (member data ''success'') \<and> v = member data ''data'' \<and> v \<noteq> Undefined"
  by (auto simp: unwrap_def getProp_def split: if_splits sum.splits bool.splits jsval.splits)

lemma send_Inr:
  assumes "send cfg m p b a w = (Inr v, w1)"
  shows "\<exists>l status data.
           latency (shd (net w)) = Some l \<and> l < timer_delay (timeout cfg)
           \<and> outcome (shd (net w)) = Response True status (Json data)
           \<and> \<not> nullish data \<and> truthy (member data ''success'')
           \<and> v = member data ''data'' \<and> v \<noteq> Undefined
           \<and> now w1 = now w + int l"
  using assms
  by (auto simp: send_def setTimeout_def fetch_def Let_def clearTimeout_def fired_def
      split: option.splits if_splits outcome.splits parsed.splits sum.splits
      dest!: unwrap_Inr)

lemma send_Inl: "send cfg m p b a w = (Inl t, w1) \<Longrightarrow> \<exists>e. t = ZErr e"
  by (auto simp: send_def split: prod.splits outcome.splits parsed.splits sum.splits)

text \<open>The conversion to a number throws exactly when the conversion to a string does.\<close>

lemma ToNumber_Inl: "ToNumber v = Inl t \<Longrightarrow> ToString v = Inl t"
  by (cases v) (simp_all split: sum.splits)

lemma converts_ToNumber: "converts v \<Longrightarrow> \<exists>n. ToNumber v = Inr n"
  by (cases v) (auto simp: converts_def split: sum.splits)

lemma js_mul_Inl: "js_mul v (Num k) = Inl t \<Longrightarrow> t = cannot_convert \<and> \<not> converts v"
proof -
  assume "js_mul v (Num k) = Inl t"
  then have "ToNumber v = Inl t"
    by (simp add: js_mul_def split: sum.splits)
  then have "ToString v = Inl t"
    by (rule ToNumber_Inl)
  then show ?thesis
    using ToString_Inl[of v t] by (simp add: converts_def)
qed

lemma store_tokens_cases:
  assumes "store_tokens response s w = (r, s1, w1)"
  shows "w1 = w
     \<and> (nullish response \<longrightarrow> r = Inl (cannot_read response ''accessToken'') \<and> s1 = s)
     \<and> (\<not> nullish response \<and> \<not> converts (member response ''expiresIn'') \<longrightarrow>
          r = Inl cannot_convert
          \<and> s1 = s\<lparr> accessToken := member response ''accessToken'',
                      refreshToken := member response ''refreshToken'' \<rparr>)
     \<and> (\<not> nullish response \<and> converts (member response ''expiresIn'') \<longrightarrow>
          r = Inr ()
          \<and> (\<exists>p. js_mul (member response ''expiresIn'') (Num 1000) = Inr p
               \<and> s1 = s\<lparr> accessToken := member response ''accessToken'',
                           refreshToken := member response ''refreshToken'',
                           tokenExpiresAt := num_add (Num (now w)) p \<rparr>))"
proof (cases "nullish response")
  case True
  with assms show ?thesis by (auto simp: store_tokens_def)
next
  case False
  show ?thesis
  proof (cases "js_mul (member response ''expiresIn'') (Num 1000)")
    case (Inl t)
    from js_mul_Inl[OF Inl] have "t = cannot_convert" "\<not> converts (member response ''expiresIn'')"
      by simp_all
    with assms False Inl show ?thesis by (auto simp: store_tokens_def Let_def)
  next
    case (Inr p)
    have "converts (member response ''expiresIn'')"
    proof (rule ccontr)
      assume "\<not> converts (member response ''expiresIn'')"
      then have "ToString (member response ''expiresIn'') = Inl cannot_convert"
        by (rule not_converts_Inl)
      then have "ToNumber (member response ''expiresIn'') = Inl cannot_convert"
        by (cases "member response ''expiresIn''") (simp_all split: sum.splits)
      with Inr show False by (simp add: js_mul_def)
    qed
    with assms False Inr show ?thesis by (auto simp: store_tokens_def Let_def)
  qed
qed

lemma cannot_read_convert: "cannot_read v k \<noteq> cannot_convert"
  by (simp add: cannot_read_def cannot_convert_def)

text \<open>
  Claim C4 as stated fails: when the payload's \<open>expiresIn\<close> is an object with an own
  \<open>toString\<close> property, \<open>refreshAccessToken()\<close> and \<open>authenticate()\<close> throw a
  TypeError after they have stored the new access and refresh tokens, and the expiry is
  still the old one.
\<close>

theorem token_exchange_mixed_store:
  "fst (refreshAccessToken stale_client
         (world_at 1000 (sconst (responds 20 True 200
            (success_body (Obj [(''accessToken'', Str ''A''), (''refreshToken'', Str ''R''),
                                (''expiresIn'', Obj [(''toString'', Null)])]))))))
     = Inl (JsError ''TypeError'' ''Cannot convert object to primitive value'')
   \<and> fst (snd (refreshAccessToken stale_client
         (world_at 1000 (sconst (responds 20 True 200
            (success_body (Obj [(''accessToken'', Str ''A''), (''refreshToken'', Str ''R''),
                                (''expiresIn'', Obj [(''toString'', Null)])])))))))
     = fresh_client\<lparr> accessToken := Str ''A'', refreshToken := Str ''R'',
                      tokenExpiresAt := Num 500 \<rparr>
   \<and> fst (authenticate stale_client
         (world_at 1000 (sconst (responds 20 True 200
            (success_body (Obj [(''accessToken'', Str ''A''), (''refreshToken'', Str ''R''),
                                (''expiresIn'', Obj [(''toString'', Null)])]))))))
     = Inl (JsError ''TypeError'' ''Cannot convert object to primitive value'')
   \<and> fst (snd (authenticate stale_client
         (world_at 1000 (sconst (responds 20 True 200
            (success_body (Obj [(''accessToken'', Str ''A''), (''refreshToken'', Str ''R''),
                                (''expiresIn'', Obj [(''toString'', Null)])])))))))
     = fresh_client\<lparr> accessToken := Str ''A'', refreshToken := Str ''R'',
                      tokenExpiresAt := Num 500 \<rparr>
   \<and> stale_client
     = fresh_client\<lparr> accessToken := Str ''old'', refreshToken := Str ''oldR'',
                      tokenExpiresAt := Num 500 \<rparr>"
  by (simp add: token_simps run_simps example_simps)

text \<open>
  Claim C4, amended. For \<open>authenticate()\<close> and \<open>refreshAccessToken()\<close> alike, let the
  call return or throw \<open>r\<close> and leave client \<open>s1\<close>. When it returns, the transport
  answered in time with an OK response whose envelope has a truthy \<open>success\<close> and a
  payload \<open>response\<close> other than \<open>null\<close>, and all three fields are replaced from that
  payload: the access token, the refresh token, and the expiry, computed when the
  response has arrived. With a lifetime that is a number \<open>n\<close> of seconds the expiry is
  that instant plus \<open>1000 n\<close> (the instant, the product and the sum within \<open>2\<^sup>5\<^sup>3\<close>, where
  the code's arithmetic is exact); a payload without \<open>expiresIn\<close> is no failure for the
  code: the call returns and the expiry stored is \<open>NaN\<close>. When the call throws anything
  but the TypeError of a failed conversion (so whenever the request itself fails, and when
  the payload is \<open>null\<close>), no field has changed. It throws that TypeError only after a
  response as above whose \<open>expiresIn\<close> cannot be converted, and then the access token
  and the refresh token are replaced and the expiry is not.
\<close>

theorem token_exchange_store_update:
  assumes "exchange = authenticate \<or> exchange = refreshAccessToken"
    and "exchange s w = (r, s1, w1)"
  shows "(\<forall>t. r = Inl t \<and> t \<noteq> cannot_convert \<longrightarrow> s1 = s)
     \<and> (r = Inl cannot_convert \<longrightarrow>
          (\<exists>l status data response.
              latency (shd (net w)) = Some l \<and> l < timer_delay (timeout (config s))
              \<and> outcome (shd (net w)) = Response True status (Json data)
              \<and> truthy (member data ''success'')
              \<and> response = member data ''data'' \<and> \<not> nullish response
              \<and> \<not> converts (member response ''expiresIn'')
              \<and> s1 = s\<lparr> accessToken := member response ''accessToken'',
                          refreshToken := member response ''refreshToken'' \<rparr>))
     \<and> (r = Inr () \<longrightarrow>
          (\<exists>l status data response expiry.
              latency (shd (net w)) = Some l \<and> l < timer_delay (timeout (config s))
              \<and> outcome (shd (net w)) = Response True status (Json data)
              \<and> truthy (member data ''success'')
              \<and> response = member data ''data'' \<and> \<not> nullish response
              \<and> now w1 = now w + int l
              \<and> s1 = s\<lparr> accessToken := member response ''accessToken'',
                          refreshToken := member response ''refreshToken'',
                          tokenExpiresAt := expiry \<rparr>
              \<and> (\<forall>n. member response ''expiresIn'' = Num n
                      \<and> \<bar>now w1\<bar> \<le> 9007199254740992 \<and> \<bar>n * 1000\<bar> \<le> 9007199254740992
                      \<and> \<bar>now w1 + n * 1000\<bar> \<le> 9007199254740992
                    \<longrightarrow> expiry = Num (now w1 + n * 1000))
              \<and> (member response ''expiresIn'' = Undefined \<longrightarrow> expiry = NaN)))"
proof -
  obtain m p b where ex: "exchange s w =
      (case send (config s) m p b None w of
         (Inl t, w') \<Rightarrow> (Inl t, s, w')
       | (Inr response, w') \<Rightarrow> store_tokens response s w')"
    using assms(1) by (auto simp: authenticate_def refreshAccessToken_def)
  obtain q w' where snd: "send (config s) m p b None w = (q, w')"
    by (cases "send (config s) m p b None w")
  show ?thesis
  proof (cases q)
    case (Inl t)
    with ex snd assms(2) have "r = Inl t" and "s1 = s" by simp_all
    moreover from Inl snd send_Inl[of "config s" m p b None w t w'] have "t \<noteq> cannot_convert"
      by (auto simp: cannot_convert_def)
    ultimately show ?thesis by simp
  next
    case (Inr response)
    with snd have ok: "send (config s) m p b None w = (Inr response, w')" by simp
    from send_Inr[OF ok] obtain l status data where
      ev: "latency (shd (net w)) = Some l" "l < timer_delay (timeout (config s))"
        "outcome (shd (net w)) = Response True status (Json data)"
        "truthy (member data ''success'')" "response = member data ''data''"
        "now w' = now w + int l"
      by blast
    from ex ok assms(2) have st: "store_tokens response s w' = (r, s1, w1)" by simp
    note sc = store_tokens_cases[OF st]
    then have w1: "w1 = w'" by simp
    consider (null) "nullish response"
      | (mixed) "\<not> nullish response" "\<not> converts (member response ''expiresIn'')"
      | (stored) "\<not> nullish response" "converts (member response ''expiresIn'')"
      by blast
    then show ?thesis
    proof cases
      case null
      with sc have "r = Inl (cannot_read response ''accessToken'')" and "s1 = s"
        by simp_all
      then show ?thesis using cannot_read_convert[of response "''accessToken''"] by auto
    next
      case mixed
      with sc have r: "r = Inl cannot_convert"
        and s1: "s1 = s\<lparr> accessToken := member response ''accessToken'',
                      refreshToken := member response ''refreshToken'' \<rparr>"
        by simp_all
      have "\<exists>l status data response.
              latency (shd (net w)) = Some l \<and> l < timer_delay (timeout (config s))
              \<and> outcome (shd (net w)) = Response True status (Json data)
              \<and> truthy (member data ''success'')
              \<and> response = member data ''data'' \<and> \<not> nullish response
              \<and> \<not> converts (member response ''expiresIn'')
              \<and> s1 = s\<lparr> accessToken := member response ''accessToken'',
                          refreshToken := member response ''refreshToken'' \<rparr>"
        using ev mixed s1 by blast
      with r show ?thesis by simp
    next
      case stored
      with sc obtain p where r: "r = Inr ()"
        and p: "js_mul (member response ''expiresIn'') (Num 1000) = Inr p"
        and s1: "s1 = s\<lparr> accessToken := member response ''accessToken'',
                           refreshToken := member response ''refreshToken'',
                           tokenExpiresAt := num_add (Num (now w')) p \<rparr>"
        by blast
      have num: "\<forall>n. member response ''expiresIn'' = Num n
                      \<and> \<bar>now w1\<bar> \<le> 9007199254740992 \<and> \<bar>n * 1000\<bar> \<le> 9007199254740992
                      \<and> \<bar>now w1 + n * 1000\<bar> \<le> 9007199254740992
                    \<longrightarrow> num_add (Num (now w')) p = Num (now w1 + n * 1000)"
        using p w1 by (auto simp: js_mul_def num_add_def)
      have und: "member response ''expiresIn'' = Undefined \<longrightarrow> num_add (Num (now w')) p = NaN"
        using p by (auto simp: js_mul_def num_add_def)
      have "\<exists>l status data response expiry.
              latency (shd (net w)) = Some l \<and> l < timer_delay (timeout (config s))
              \<and> outcome (shd (net w)) = Response True status (Json data)
              \<and> truthy (member data ''success'')
              \<and> response = member data ''data'' \<and> \<not> nullish response
              \<and> now w1 = now w + int l
              \<and> s1 = s\<lparr> accessToken := member response ''accessToken'',
                          refreshToken := member response ''refreshToken'',
                          tokenExpiresAt := expiry \<rparr>
              \<and> (\<forall>n. member response ''expiresIn'' = Num n
                      \<and> \<bar>now w1\<bar> \<le> 9007199254740992 \<and> \<bar>n * 1000\<bar> \<le> 9007199254740992
                      \<and> \<bar>now w1 + n * 1000\<bar> \<le> 9007199254740992
                    \<longrightarrow> expiry = Num (now w1 + n * 1000))
              \<and> (member response ''expiresIn'' = Undefined \<longrightarrow> expiry = NaN)"
        using ev stored(1) s1 num und w1
        by (intro exI[of _ l] exI[of _ status] exI[of _ data] exI[of _ response]
            exI[of _ "num_add (Num (now w')) p"]) simp
      with r show ?thesis by simp
    qed
  qed
qed

theorem token_exchange_store_update_witness:
  "authenticate fresh_client
      (world_at 1000 (sconst (responds 20 True 200
         (success_body (Obj [(''accessToken'', Str ''A''), (''refreshToken'', Str ''R''),
                             (''expiresIn'', Num 3600)])))))
     = (Inr (),
        fresh_client\<lparr> accessToken := Str ''A'', refreshToken := Str ''R'',
                       tokenExpiresAt := Num 3601020 \<rparr>,
        \<lparr> now = 1020,
          net = sconst (responds 20 True 200
            (success_body (Obj [(''accessToken'', Str ''A''), (''refreshToken'', Str ''R''),
                                (''expiresIn'', Num 3600)]))),
          calls = [\<lparr> url = ''https://api.zilligon.com/v1/auth/token'', httpMethod = ''POST'',
                     authorization = None, body = Some (Obj [(''apiKey'', Str ''zk_live_key'')]) \<rparr>],
          timers = [], nextTimer = 1 \<rparr>)
   \<and> fst (snd (refreshAccessToken stale_client
         (world_at 1000 (sconst (responds 20 True 200
            (success_body (Obj [(''accessToken'', Str ''A''), (''refreshToken'', Str ''R''),
                                (''expiresIn'', Num 3600)])))))))
     = fresh_client\<lparr> accessToken := Str ''A'', refreshToken := Str ''R'',
                      tokenExpiresAt := Num 3601020 \<rparr>
   \<and> calls (snd (snd (refreshAccessToken stale_client
         (world_at 1000 (sconst (responds 20 True 200
            (success_body (Obj [(''accessToken'', Str ''A''), (''refreshToken'', Str ''R''),
                                (''expiresIn'', Num 3600)])))))))) 
     = [\<lparr> url = ''https://api.zilligon.com/v1/auth/refresh'', httpMethod = ''POST'',
           authorization = None, body = Some (Obj [(''refreshToken'', Str ''oldR'')]) \<rparr>]
   \<and> fst (snd (refreshAccessToken stale_client
         (world_at 1000 (sconst (responds 20 False 401 (failure_body ''TOKEN_EXPIRED'' ''expired''))))))
     = stale_client
   \<and> fst (snd (authenticate stale_client
         (world_at 1000 (sconst (responds 20 True 200
            (success_body (Obj [(''accessToken'', Str ''A''), (''refreshToken'', Str ''R'')])))))))
     = fresh_client\<lparr> accessToken := Str ''A'', refreshToken := Str ''R'', tokenExpiresAt := NaN \<rparr>
   \<and> fst (snd (authenticate stale_client
         (world_at 1000 (sconst (responds 20 True 200
            (success_body (Obj [(''accessToken'', Str ''A''), (''refreshToken'', Str ''R''),
                                (''expiresIn'', Arr [Obj [(''toString'', Str ''x'')]])])))))))
     = stale_client\<lparr> accessToken := Str ''A'', refreshToken := Str ''R'' \<rparr>"
proof -
  let ?ok = "world_at 1000 (sconst (responds 20 True 200
         (success_body (Obj [(''accessToken'', Str ''A''), (''refreshToken'', Str ''R''),
                             (''expiresIn'', Num 3600)]))))"
  let ?denied = "world_at 1000 (sconst (responds 20 False 401
      (failure_body ''TOKEN_EXPIRED'' ''expired'')))"
  let ?partial = "world_at 1000 (sconst (responds 20 True 200
            (success_body (Obj [(''accessToken'', Str ''A''), (''refreshToken'', Str ''R'')]))))"
  let ?broken = "world_at 1000 (sconst (responds 20 True 200
            (success_body (Obj [(''accessToken'', Str ''A''), (''refreshToken'', Str ''R''),
                                (''expiresIn'', Arr [Obj [(''toString'', Str ''x'')]])]))))"
  have run: "authenticate fresh_client ?ok
     = (Inr (),
        fresh_client\<lparr> accessToken := Str ''A'', refreshToken := Str ''R'',
                       tokenExpiresAt := Num 3601020 \<rparr>,
        \<lparr> now = 1020,
          net = sconst (responds 20 True 200
            (success_body (Obj [(''accessToken'', Str ''A''), (''refreshToken'', Str ''R''),
                                (''expiresIn'', Num 3600)]))),
          calls = [\<lparr> url = ''https://api.zilligon.com/v1/auth/token'', httpMethod = ''POST'',
                     authorization = None, body = Some (Obj [(''apiKey'', Str ''zk_live_key'')]) \<rparr>],
          timers = [], nextTimer = 1 \<rparr>)"
    by (simp add: token_simps run_simps example_simps)
  have refreshed: "fst (refreshAccessToken stale_client ?ok) = Inr ()"
    and called: "calls (snd (snd (refreshAccessToken stale_client ?ok)))
      = [\<lparr> url = ''https://api.zilligon.com/v1/auth/refresh'', httpMethod = ''POST'',
            authorization = None, body = Some (Obj [(''refreshToken'', Str ''oldR'')]) \<rparr>]"
    by (simp_all add: token_simps run_simps example_simps)
  obtain r0 s0 w0 where rf: "refreshAccessToken stale_client ?ok = (r0, s0, w0)"
    by (cases "refreshAccessToken stale_client ?ok")
  from refreshed rf have "r0 = Inr ()" by simp
  with token_exchange_store_update [of refreshAccessToken stale_client ?ok r0 s0 w0] rf
  have "s0 = fresh_client\<lparr> accessToken := Str ''A'', refreshToken := Str ''R'',
      tokenExpiresAt := Num 3601020 \<rparr>"
    by (auto simp: world_at_def responds_def example_simps)
  with rf have renewed: "fst (snd (refreshAccessToken stale_client ?ok))
      = fresh_client\<lparr> accessToken := Str ''A'', refreshToken := Str ''R'',
                       tokenExpiresAt := Num 3601020 \<rparr>"
    by simp
  have failed: "fst (refreshAccessToken stale_client ?denied)
      = Inl (ZErr \<lparr> message = ''expired'', code = Str ''TOKEN_EXPIRED'', statusCode = Some 401,
                      details = Undefined \<rparr>)"
    by (simp add: token_simps run_simps example_simps)
  obtain r s1 w1 where den: "refreshAccessToken stale_client ?denied = (r, s1, w1)"
    by (cases "refreshAccessToken stale_client ?denied")
  from failed den have "r = Inl (ZErr \<lparr> message = ''expired'', code = Str ''TOKEN_EXPIRED'',
      statusCode = Some 401, details = Undefined \<rparr>)"
    by simp
  with token_exchange_store_update [of refreshAccessToken stale_client ?denied r s1 w1] den
  have "s1 = stale_client" by (simp add: cannot_convert_def)
  with den have unchanged: "fst (snd (refreshAccessToken stale_client ?denied)) = stale_client"
    by simp
  have succeeded: "fst (authenticate stale_client ?partial) = Inr ()"
    by (simp add: token_simps run_simps example_simps)
  obtain r' s1' w1' where par: "authenticate stale_client ?partial = (r', s1', w1')"
    by (cases "authenticate stale_client ?partial")
  from succeeded par have "r' = Inr ()" by simp
  with token_exchange_store_update [of authenticate stale_client ?partial r' s1' w1'] par
  have "s1' = fresh_client\<lparr> accessToken := Str ''A'', refreshToken := Str ''R'',
      tokenExpiresAt := NaN \<rparr>"
    by (auto simp: world_at_def responds_def example_simps)
  with par have replaced: "fst (snd (authenticate stale_client ?partial))
      = fresh_client\<lparr> accessToken := Str ''A'', refreshToken := Str ''R'', tokenExpiresAt := NaN \<rparr>"
    by simp
  have threw: "fst (authenticate stale_client ?broken) = Inl cannot_convert"
    by (simp add: token_simps run_simps example_simps)
  obtain r'' s1'' w1'' where br: "authenticate stale_client ?broken = (r'', s1'', w1'')"
    by (cases "authenticate stale_client ?broken")
  from threw br have "r'' = Inl cannot_convert" by simp
  with token_exchange_store_update [of authenticate stale_client ?broken r'' s1'' w1''] br
  have "s1'' = stale_client\<lparr> accessToken := Str ''A'', refreshToken := Str ''R'' \<rparr>"
    by (auto simp: world_at_def responds_def example_simps)
  with br have mixed: "fst (snd (authenticate stale_client ?broken))
      = stale_client\<lparr> accessToken := Str ''A'', refreshToken := Str ''R'' \<rparr>"
    by simp
  from run renewed called unchanged replaced mixed show ?thesis by (intro conjI)
qed

section \<open>Ensuring a valid token\<close>

text \<open>The transport calls that \<open>authenticate\<close> and \<open>refreshAccessToken\<close> make for a client.\<close>

definition authenticate_call :: "ZilligonClient \<Rightarrow> fetch_call" where
  "authenticate_call s =
     \<lparr> url = text_of (baseUrl (config s)) @ ''/v1/auth/token'', httpMethod = ''POST'',
       authorization = None, body = Some (Obj [(''apiKey'', apiKey (config s))]) \<rparr>"

definition refresh_call :: "ZilligonClient \<Rightarrow> fetch_call" where
  "refresh_call s =
     \<lparr> url = text_of (baseUrl (config s)) @ ''/v1/auth/refresh'', httpMethod = ''POST'',
       authorization = None, body = Some (Obj [(''refreshToken'', refreshToken s)]) \<rparr>"

lemma calls_fetch: "fetch call t d w = (out, w1) \<Longrightarrow> calls w1 = calls w @ [call]"
  by (auto simp: fetch_def Let_def fired_def split: option.splits if_splits)

lemma calls_send:
  "send cfg m p b a w = (r, w1) \<Longrightarrow>
   calls w1 = calls w @ [\<lparr> url = text_of (baseUrl cfg) @ p, httpMethod = m, authorization = a,
                            body = (if truthy b then Some b else None) \<rparr>]"
  unfolding send_def
  by (auto simp: setTimeout_def clearTimeout_def split: prod.splits outcome.splits parsed.splits sum.splits
      dest!: calls_fetch)

lemma config_store_tokens: "store_tokens d s w = (r, s1, w1) \<Longrightarrow> config s1 = config s"
  by (auto simp: store_tokens_def Let_def split: if_splits sum.splits)

lemma config_authenticate: "authenticate s w = (r, s1, w1) \<Longrightarrow> config s1 = config s"
  unfolding authenticate_def
  by (auto split: prod.splits sum.splits dest: config_store_tokens)

lemma config_refreshAccessToken: "refreshAccessToken s w = (r, s1, w1) \<Longrightarrow> config s1 = config s"
  unfolding refreshAccessToken_def
  by (auto split: prod.splits sum.splits dest: config_store_tokens)

lemma calls_authenticate:
  "authenticate s w = (r, s1, w1) \<Longrightarrow>
   calls w1 = calls w @ [authenticate_call s] \<and> config s1 = config s"
  using config_authenticate[of s w r s1 w1]
  unfolding authenticate_def authenticate_call_def
  by (auto split: prod.splits sum.splits dest!: calls_send now_store_tokens)

lemma calls_refreshAccessToken:
  "refreshAccessToken s w = (r, s1, w1) \<Longrightarrow>
   calls w1 = calls w @ [refresh_call s] \<and> config s1 = config s"
  using config_refreshAccessToken[of s w r s1 w1]
  unfolding refreshAccessToken_def refresh_call_def
  by (auto split: prod.splits sum.splits dest!: calls_send now_store_tokens)


lemma calls_authenticate_and_return:
  "authenticate_and_return s w = (r, s1, w1) \<Longrightarrow>
   calls w1 = calls w @ [authenticate_call s] \<and> config s1 = config s"
  by (auto simp: authenticate_and_return_def split: prod.splits sum.splits dest!: calls_authenticate)







section \<open>The request timeout and its timer\<close>

definition timeout_error :: ZilligonError where
  "timeout_error =
     \<lparr> message = ''Request timed out'', code = Str ''TIMEOUT'', statusCode = None,
       details = Undefined \<rparr>"

text \<open>
  Between two worlds, the timers set in between are no longer pending and the others are
  as they were.
\<close>

definition timers_settled :: "world \<Rightarrow> world \<Rightarrow> bool" where
  "timers_settled w w1 =
     (nextTimer w \<le> nextTimer w1
      \<and> timers w1 = filter (\<lambda>i. i < nextTimer w \<or> nextTimer w1 \<le> i) (timers w))"

lemma timers_settled_refl: "timers_settled w w"
  by (simp add: timers_settled_def) (induction "timers w", auto intro: filter_id_conv[THEN iffD2, symmetric])

lemma timers_settled_trans:
  assumes "timers_settled w w1" and "timers_settled w1 w2"
  shows "timers_settled w w2"
proof -
  have "filter (\<lambda>i. i < nextTimer w1 \<or> nextTimer w2 \<le> i)
          (filter (\<lambda>i. i < nextTimer w \<or> nextTimer w1 \<le> i) (timers w))
        = filter (\<lambda>i. i < nextTimer w \<or> nextTimer w2 \<le> i) (timers w)"
    using assms unfolding timers_settled_def filter_filter
    by (intro filter_cong refl) auto
  with assms show ?thesis by (simp add: timers_settled_def)
qed

lemma timers_fetch:
  "fetch call t d w = (out, w1) \<Longrightarrow>
   nextTimer w1 = nextTimer w \<and> (timers w1 = timers w \<or> timers w1 = removeAll t (timers w))"
  by (auto simp: fetch_def Let_def fired_def split: option.splits if_splits)

lemma timers_send: "send cfg m p b a w = (r, w1) \<Longrightarrow> timers_settled w w1"
proof -
  assume a: "send cfg m p b a w = (r, w1)"
  have "nextTimer w1 = Suc (nextTimer w) \<and> timers w1 = removeAll (nextTimer w) (timers w)"
    using a unfolding send_def
    by (auto simp: setTimeout_def clearTimeout_def split: prod.splits outcome.splits parsed.splits sum.splits
        dest!: timers_fetch)
  then show ?thesis
    by (auto simp: timers_settled_def removeAll_filter_not_eq intro!: filter_cong)
qed

lemma timers_authenticate: "authenticate s w = (r, s1, w1) \<Longrightarrow> timers_settled w w1"
  unfolding authenticate_def
  by (auto split: prod.splits sum.splits dest!: timers_send now_store_tokens)

lemma timers_refreshAccessToken: "refreshAccessToken s w = (r, s1, w1) \<Longrightarrow> timers_settled w w1"
  unfolding refreshAccessToken_def
  by (auto split: prod.splits sum.splits dest!: timers_send now_store_tokens)

lemma timers_authenticate_and_return:
  "authenticate_and_return s w = (r, s1, w1) \<Longrightarrow> timers_settled w w1"
  unfolding authenticate_and_return_def
  by (auto split: prod.splits sum.splits dest!: timers_authenticate)

lemma timers_ensureValidToken: "ensureValidToken s w = (r, s1, w1) \<Longrightarrow> timers_settled w w1"
  unfolding ensureValidToken_def
  by (auto split: prod.splits sum.splits if_splits
      intro: timers_settled_refl
      dest!: timers_refreshAccessToken timers_authenticate_and_return
      elim: timers_settled_trans)

lemma timers_request: "request m p b sk s w = (r, s1, w1) \<Longrightarrow> timers_settled w w1"
  unfolding request_def
  by (auto split: prod.splits sum.splits if_splits
      dest!: timers_ensureValidToken timers_send elim: timers_settled_trans)

text \<open>
  A transport event that rejects an aborted call as the platform's \<open>fetch\<close> does, with
  an \<open>Error\<close> named \<open>AbortError\<close>.
\<close>

definition honours_abort :: "event \<Rightarrow> bool" where
  "honours_abort e = (case onAbort e of JsError name msg \<Rightarrow> name = ''AbortError'' | _ \<Rightarrow> False)"

lemma classify_abort: "honours_abort e \<Longrightarrow> classify (onAbort e) = timeout_error"
  by (cases "onAbort e") (simp_all add: honours_abort_def timeout_error_def)

lemma fetch_never:
  "latency (shd (net w)) = None \<Longrightarrow>
   fetch call t d w =
     (Rejected (onAbort (shd (net w))),
      fired t (w\<lparr> net := stl (net w), calls := calls w @ [call], now := now w + int d \<rparr>))"
  by (simp add: fetch_def Let_def)

lemma send_never:
  assumes "latency (shd (net w)) = None"
  shows "\<exists>w1. send cfg m p b a w = (Inl (ZErr (classify (onAbort (shd (net w))))), w1)
            \<and> now w1 = now w + int (timer_delay (timeout cfg)) \<and> net w1 = stl (net w)"
  using assms
  by (simp add: send_def setTimeout_def fetch_never fired_def clearTimeout_def)

text \<open>A world whose transport never settles a call on its own and honours every abort.\<close>

definition silent :: "world \<Rightarrow> bool" where
  "silent w = (\<forall>e \<in> sset (net w). latency e = None \<and> honours_abort e)"

lemma silent_shd: "silent w \<Longrightarrow> latency (shd (net w)) = None \<and> honours_abort (shd (net w))"
  by (simp add: silent_def shd_sset)

lemma silent_stl: "silent w \<Longrightarrow> net w1 = stl (net w) \<Longrightarrow> silent w1"
  by (auto simp: silent_def dest: stl_sset)

lemma send_silent:
  assumes "silent w"
  shows "\<exists>w1. send cfg m p b a w = (Inl (ZErr timeout_error), w1) \<and> silent w1"
  using send_never[of w cfg m p b a] silent_shd[OF assms] silent_stl[OF assms]
    classify_abort[of "shd (net w)"]
  by auto

lemma authenticate_silent:
  assumes "silent w"
  shows "\<exists>w1. authenticate s w = (Inl (ZErr timeout_error), s, w1) \<and> silent w1"
  using send_silent[OF assms, of "config s" "''POST''" "''/v1/auth/token''"
      "Obj [(''apiKey'', apiKey (config s))]" None]
  by (auto simp: authenticate_def)

lemma refreshAccessToken_silent:
  assumes "silent w"
  shows "\<exists>w1. refreshAccessToken s w = (Inl (ZErr timeout_error), s, w1) \<and> silent w1"
  using send_silent[OF assms, of "config s" "''POST''" "''/v1/auth/refresh''"
      "Obj [(''refreshToken'', refreshToken s)]" None]
  by (auto simp: refreshAccessToken_def)

lemma authenticate_and_return_silent:
  assumes "silent w"
  shows "\<exists>w1. authenticate_and_return s w = (Inl (ZErr timeout_error), s, w1) \<and> silent w1"
  using authenticate_silent[OF assms, of s] by (auto simp: authenticate_and_return_def)

lemma ensureValidToken_silent:
  assumes "silent w"
  shows "isValid s (now w) \<and> ensureValidToken s w = (Inr (accessToken s), s, w)
         \<or> \<not> isValid s (now w)
           \<and> (\<exists>w1. ensureValidToken s w = (Inl (ZErr timeout_error), s, w1) \<and> silent w1)"
proof (cases "isValid s (now w)")
  case True
  then show ?thesis by (simp add: ensureValidToken_def)
next
  case invalid: False
  show ?thesis
  proof (cases "truthy (refreshToken s)")
    case False
    with invalid authenticate_and_return_silent[OF assms, of s] show ?thesis
      by (simp add: ensureValidToken_def)
  next
    case True
    from refreshAccessToken_silent[OF assms, of s] obtain w0
      where rf: "refreshAccessToken s w = (Inl (ZErr timeout_error), s, w0)" and "silent w0"
      by blast
    with invalid True authenticate_and_return_silent[of w0 s] show ?thesis
      by (simp add: ensureValidToken_def)
  qed
qed

lemma request_silent:
  assumes "silent w" and "sk \<or> \<not> isValid s (now w) \<or> converts (accessToken s)"
  shows "fst (request m p b sk s w) = Inl (ZErr timeout_error)"
proof (cases sk)
  case True
  with send_silent[OF assms(1), of "config s" m p b None] show ?thesis
    by (auto simp: request_def)
next
  case False
  from ensureValidToken_silent[OF assms(1), of s] show ?thesis
  proof
    assume ok: "isValid s (now w) \<and> ensureValidToken s w = (Inr (accessToken s), s, w)"
    with assms(2) False have "converts (accessToken s)" by simp
    then obtain tk where tk: "ToString (accessToken s) = Inr tk"
      using converts_Inr by blast
    from send_silent[OF assms(1), of "config s" m p b "Some (''Bearer '' @ tk)"]
    show ?thesis using False ok tk by (auto simp: request_def)
  next
    assume "\<not> isValid s (now w)
      \<and> (\<exists>w1. ensureValidToken s w = (Inl (ZErr timeout_error), s, w1) \<and> silent w1)"
    then show ?thesis using False by (auto simp: request_def)
  qed
qed

lemma request_direct_never:
  assumes "latency (shd (net w)) = None" and "sk \<or> isValid s (now w) \<and> converts (accessToken s)"
    and "request m p b sk s w = (r, s1, w1)"
  shows "r = Inl (ZErr (classify (onAbort (shd (net w))))) \<and> s1 = s
         \<and> now w1 = now w + int (timer_delay (timeout (config s)))"
proof -
  obtain tk where tk: "sk \<or> isValid s (now w) \<and> ToString (accessToken s) = Inr tk"
    using assms(2) converts_Inr[of "accessToken s"] by blast
  let ?a = "if sk then None else Some (''Bearer '' @ tk)"
  from send_never[OF assms(1), of "config s" m p b ?a] obtain w'
    where "send (config s) m p b ?a w = (Inl (ZErr (classify (onAbort (shd (net w))))), w')"
      and "now w' = now w + int (timer_delay (timeout (config s)))"
    by blast
  with request_direct[OF tk, of m p b] assms(3) show ?thesis
    by auto
qed

lemma request_unconvertible_token:
  assumes "\<not> sk" and "isValid s (now w)" and "\<not> converts (accessToken s)"
  shows "request m p b sk s w = (Inl cannot_convert, s, w)"
  using assms not_converts_Inl[of "accessToken s"]
  by (simp add: request_def ensureValidToken_def)

lemma timers_settled_wf:
  assumes "timers_settled w w1" and "\<forall>i \<in> set (timers w). i < nextTimer w"
  shows "timers w1 = timers w"
proof -
  have "filter (\<lambda>i. i < nextTimer w \<or> nextTimer w1 \<le> i) (timers w) = timers w"
    using assms(2) by (intro filter_True) auto
  with assms(1) show ?thesis by (simp add: timers_settled_def)
qed

lemma constructor_timeout:
  "constructor cfg = Inr c \<Longrightarrow>
   timeout (config c) = (if truthy (timeout cfg) then timeout cfg else Num 30000)"
  by (auto simp: constructor_def Let_def js_or_def DEFAULT_TIMEOUT_def split: if_splits)

text \<open>A transport event that never settles, and a client configured to wait \<open>2\<^sup>3\<^sup>1\<close> ms.\<close>

definition never :: event where
  "never = \<lparr> latency = None, outcome = Rejected NonError, onAbort = abort_error \<rparr>"

definition patient_client :: ZilligonClient where
  "patient_client = fresh_client\<lparr> config := (config fresh_client)\<lparr> timeout := Num 2147483648 \<rparr> \<rparr>"

text \<open>
  Claim C6 as stated fails: a client configured with a timeout of 2147483648 ms, whose
  transport never settles, has its request aborted and failed with \<open>TIMEOUT\<close> after 1 ms,
  not after the configured timeout.
\<close>

theorem request_timeout_overflow:
  "constructor \<lparr> apiKey = Str ''zk_live_key'', baseUrl = Undefined, timeout = Num 2147483648,
                  debug = Undefined \<rparr> = Inr patient_client
   \<and> timeout (config patient_client) = Num 2147483648
   \<and> request ''GET'' ''/v1/agents/me'' Undefined True patient_client (world_at 1000 (sconst never))
     = (Inl (ZErr \<lparr> message = ''Request timed out'', code = Str ''TIMEOUT'',
                     statusCode = None, details = Undefined \<rparr>),
        patient_client,
        \<lparr> now = 1001, net = sconst never,
          calls = [\<lparr> url = ''https://api.zilligon.com/v1/agents/me'', httpMethod = ''GET'',
                     authorization = None, body = None \<rparr>],
          timers = [], nextTimer = 1 \<rparr>)"
  by (simp add: patient_client_def constructor_def never_def run_simps)

text \<open>
  Claim C6, amended. Let a \<open>request\<close> return or throw \<open>r\<close>, leaving world \<open>w1\<close>. The
  client ends a call only by aborting its signal when the timer fires, so what follows is
  for a transport that rejects an aborted call, and gives \<open>TIMEOUT\<close> for one that
  rejects it with an \<open>AbortError\<close>, as the platform's \<open>fetch\<close> does. If the transport
  never settles any call and honours every abort, the request fails with the \<open>TIMEOUT\<close>
  error, provided that a stored token it would send can be converted to a string. If the
  request goes straight to the transport (\<open>skipAuth\<close>, or such a token still valid) and
  that call never settles, it fails exactly when the timer's delay has passed with what
  the \<open>catch\<close> makes of the rejection: with \<open>TIMEOUT\<close> when the abort is honoured. The
  delay is the configured timeout when that is a number of milliseconds from 1 to
  2147483647 and is 1 ms for any other number; a client constructed without a timeout has
  30000. A stored valid token that cannot be converted to a string makes the request
  throw a TypeError with no transport call made and no timer set. On every path,
  returning or throwing, the timers set during the request are no longer pending
  afterwards and every other timer is as it was; when, as in any world that has been
  running, pending timers were set earlier, the list of pending timers is exactly what it
  was before the request.
\<close>

theorem request_timeout_and_timer:
  assumes "request m p b skipAuth s w = (r, s1, w1)"
  shows "(silent w \<and> (skipAuth \<or> \<not> isValid s (now w) \<or> converts (accessToken s)) \<longrightarrow>
            r = Inl (ZErr \<lparr> message = ''Request timed out'', code = Str ''TIMEOUT'',
                            statusCode = None, details = Undefined \<rparr>))
     \<and> (latency (shd (net w)) = None
          \<and> (skipAuth \<or> isValid s (now w) \<and> converts (accessToken s)) \<longrightarrow>
            r = Inl (ZErr (classify (onAbort (shd (net w)))))
            \<and> now w1 = now w + int (timer_delay (timeout (config s))))
     \<and> (honours_abort (shd (net w)) \<longrightarrow>
            classify (onAbort (shd (net w)))
              = \<lparr> message = ''Request timed out'', code = Str ''TIMEOUT'',
                  statusCode = None, details = Undefined \<rparr>)
     \<and> (\<forall>n. timeout (config s) = Num n \<longrightarrow>
            int (timer_delay (timeout (config s))) = (if 1 \<le> n \<and> n \<le> 2147483647 then n else 1))
     \<and> (\<forall>cfg. constructor cfg = Inr s \<and> \<not> truthy (timeout cfg) \<longrightarrow>
            timeout (config s) = Num 30000)
     \<and> (\<not> skipAuth \<and> isValid s (now w) \<and> \<not> converts (accessToken s) \<longrightarrow>
            r = Inl (JsError ''TypeError'' ''Cannot convert object to primitive value'') \<and> w1 = w)
     \<and> nextTimer w \<le> nextTimer w1
     \<and> timers w1 = filter (\<lambda>i. i < nextTimer w \<or> nextTimer w1 \<le> i) (timers w)
     \<and> ((\<forall>i \<in> set (timers w). i < nextTimer w) \<longrightarrow> timers w1 = timers w)"
proof -
  have A: "silent w \<and> (skipAuth \<or> \<not> isValid s (now w) \<or> converts (accessToken s)) \<longrightarrow>
            r = Inl (ZErr \<lparr> message = ''Request timed out'', code = Str ''TIMEOUT'',
                            statusCode = None, details = Undefined \<rparr>)"
    using request_silent[of w skipAuth s m p b] assms by (auto simp: timeout_error_def)
  have B: "latency (shd (net w)) = None
          \<and> (skipAuth \<or> isValid s (now w) \<and> converts (accessToken s)) \<longrightarrow>
            r = Inl (ZErr (classify (onAbort (shd (net w)))))
            \<and> now w1 = now w + int (timer_delay (timeout (config s)))"
    using request_direct_never[OF _ _ assms] by simp
  have B': "honours_abort (shd (net w)) \<longrightarrow>
            classify (onAbort (shd (net w)))
              = \<lparr> message = ''Request timed out'', code = Str ''TIMEOUT'',
                  statusCode = None, details = Undefined \<rparr>"
    using classify_abort[of "shd (net w)"] by (simp add: timeout_error_def)
  have C: "\<forall>n. timeout (config s) = Num n \<longrightarrow>
            int (timer_delay (timeout (config s))) = (if 1 \<le> n \<and> n \<le> 2147483647 then n else 1)"
    by (simp add: timer_delay_def number_of_def)
  have D: "\<forall>cfg. constructor cfg = Inr s \<and> \<not> truthy (timeout cfg) \<longrightarrow>
            timeout (config s) = Num 30000"
  proof (intro allI impI)
    fix cfg
    assume "constructor cfg = Inr s \<and> \<not> truthy (timeout cfg)"
    with constructor_timeout[of cfg s] show "timeout (config s) = Num 30000"
      by simp
  qed
  have T: "\<not> skipAuth \<and> isValid s (now w) \<and> \<not> converts (accessToken s) \<longrightarrow>
            r = Inl (JsError ''TypeError'' ''Cannot convert object to primitive value'') \<and> w1 = w"
    using request_unconvertible_token[of skipAuth s w m p b] assms
    by (auto simp: cannot_convert_def)
  note st = timers_request[OF assms]
  then have E: "nextTimer w \<le> nextTimer w1"
    and F: "timers w1 = filter (\<lambda>i. i < nextTimer w \<or> nextTimer w1 \<le> i) (timers w)"
    by (simp_all add: timers_settled_def)
  have G: "(\<forall>i \<in> set (timers w). i < nextTimer w) \<longrightarrow> timers w1 = timers w"
    using timers_settled_wf[OF st] by blast
  from A B B' C D T E F G show ?thesis by (intro conjI)
qed

theorem request_timeout_and_timer_witness:
  "request ''GET'' ''/v1/agents/me'' Undefined False valid_client (world_at 1000 (sconst never))
     = (Inl (ZErr \<lparr> message = ''Request timed out'', code = Str ''TIMEOUT'',
                     statusCode = None, details = Undefined \<rparr>),
        valid_client,
        \<lparr> now = 31000, net = sconst never,
          calls = [\<lparr> url = ''https://api.zilligon.com/v1/agents/me'', httpMethod = ''GET'',
                     authorization = Some ''Bearer tok'', body = None \<rparr>],
          timers = [], nextTimer = 1 \<rparr>)
   \<and> fst (request ''GET'' ''/v1/agents/me'' Undefined False stale_client
            (world_at 1000 (sconst never)))
     = Inl (ZErr \<lparr> message = ''Request timed out'', code = Str ''TIMEOUT'',
                    statusCode = None, details = Undefined \<rparr>)
   \<and> timers (snd (snd (request ''GET'' ''/v1/agents/me'' Undefined False stale_client
            (world_at 1000 (sconst never))))) = []
   \<and> fst (request ''POST'' ''/v1/auth/token'' (Obj [(''apiKey'', Str ''zk_live_key'')])
            True fresh_client (world_at 1000 (sconst never)))
     = Inl (ZErr \<lparr> message = ''Request timed out'', code = Str ''TIMEOUT'',
                    statusCode = None, details = Undefined \<rparr>)
   \<and> now (snd (snd (request ''POST'' ''/v1/auth/token'' (Obj [(''apiKey'', Str ''zk_live_key'')])
            True fresh_client (world_at 1000 (sconst never))))) = 31000
   \<and> now (snd (snd (request ''POST'' ''/v1/auth/token'' (Obj [(''apiKey'', Str ''zk_live_key'')])
            True patient_client (world_at 1000 (sconst never))))) = 1001
   \<and> request ''GET'' ''/v1/agents/me'' Undefined False
        (valid_client\<lparr> accessToken := Obj [(''toString'', Null)] \<rparr>) (world_at 1000 (sconst never))
     = (Inl (JsError ''TypeError'' ''Cannot convert object to primitive value''),
        valid_client\<lparr> accessToken := Obj [(''toString'', Null)] \<rparr>, world_at 1000 (sconst never))"
proof -
  let ?w = "world_at 1000 (sconst never)"
  let ?b = "Obj [(''apiKey'', Str ''zk_live_key'')]"
  have head: "latency (shd (net ?w)) = None" and honoured: "honours_abort (shd (net ?w))"
    by (simp_all add: world_at_def never_def honours_abort_def abort_error_def)
  obtain r0 s0 w0
    where direct: "request ''POST'' ''/v1/auth/token'' ?b True fresh_client ?w = (r0, s0, w0)"
    by (cases "request ''POST'' ''/v1/auth/token'' ?b True fresh_client ?w")
  have unset: "\<not> truthy (timeout \<lparr> apiKey = Str ''zk_live_key'', baseUrl = Undefined,
      timeout = Undefined, debug = Undefined \<rparr>)"
    by simp
  from request_timeout_and_timer [OF direct] head honoured fresh_client_constructed unset
  have r0: "r0 = Inl (ZErr \<lparr> message = ''Request timed out'', code = Str ''TIMEOUT'',
                    statusCode = None, details = Undefined \<rparr>)"
    and "now w0 = now ?w + int (timer_delay (timeout (config fresh_client)))"
    and "timeout (config fresh_client) = Num 30000"
    by auto
  moreover from request_timeout_and_timer [OF direct] this(3)
  have "int (timer_delay (timeout (config fresh_client))) = 30000"
    by simp
  ultimately have "now w0 = 31000"
    by (simp add: world_at_def)
  with direct r0 have default: "fst (request ''POST'' ''/v1/auth/token'' ?b True fresh_client ?w)
     = Inl (ZErr \<lparr> message = ''Request timed out'', code = Str ''TIMEOUT'',
                    statusCode = None, details = Undefined \<rparr>)"
    and default_time: "now (snd (snd (request ''POST'' ''/v1/auth/token'' ?b True fresh_client ?w)))
      = 31000"
    by simp_all
  obtain r1 s1 w1
    where long: "request ''POST'' ''/v1/auth/token'' ?b True patient_client ?w = (r1, s1, w1)"
    by (cases "request ''POST'' ''/v1/auth/token'' ?b True patient_client ?w")
  have "timeout (config patient_client) = Num 2147483648"
    by (simp add: patient_client_def)
  with request_timeout_and_timer [OF long] head
  have "now w1 = now ?w + int (timer_delay (timeout (config patient_client)))"
    and "int (timer_delay (timeout (config patient_client))) = 1"
    by auto
  with long have overflow: "now (snd (snd (request ''POST'' ''/v1/auth/token'' ?b True patient_client ?w)))
      = 1001"
    by (simp add: world_at_def)
  have run: "request ''GET'' ''/v1/agents/me'' Undefined False valid_client ?w
     = (Inl (ZErr \<lparr> message = ''Request timed out'', code = Str ''TIMEOUT'',
                     statusCode = None, details = Undefined \<rparr>),
        valid_client,
        \<lparr> now = 31000, net = sconst never,
          calls = [\<lparr> url = ''https://api.zilligon.com/v1/agents/me'', httpMethod = ''GET'',
                     authorization = Some ''Bearer tok'', body = None \<rparr>],
          timers = [], nextTimer = 1 \<rparr>)"
    by (simp add: token_simps run_simps example_simps never_def)
  have quiet: "silent ?w"
    by (simp add: silent_def world_at_def never_def honours_abort_def abort_error_def)
  have clean: "\<forall>i \<in> set (timers ?w). i < nextTimer ?w"
    by (simp add: world_at_def)
  have expired: "\<not> isValid stale_client (now ?w)"
    by (simp add: token_simps run_simps example_simps)
  obtain r s2 w2
    where stale: "request ''GET'' ''/v1/agents/me'' Undefined False stale_client ?w = (r, s2, w2)"
    by (cases "request ''GET'' ''/v1/agents/me'' Undefined False stale_client ?w")
  from request_timeout_and_timer [OF stale] quiet clean expired
  have "r = Inl (ZErr \<lparr> message = ''Request timed out'', code = Str ''TIMEOUT'',
                    statusCode = None, details = Undefined \<rparr>)"
    and "timers w2 = timers ?w"
    by blast+
  with stale have timed_out: "fst (request ''GET'' ''/v1/agents/me'' Undefined False stale_client ?w)
     = Inl (ZErr \<lparr> message = ''Request timed out'', code = Str ''TIMEOUT'',
                    statusCode = None, details = Undefined \<rparr>)"
    and settled: "timers (snd (snd (request ''GET'' ''/v1/agents/me'' Undefined False stale_client ?w))) = []"
    by (simp_all add: world_at_def)
  let ?odd = "valid_client\<lparr> accessToken := Obj [(''toString'', Null)] \<rparr>"
  have valid: "isValid ?odd (now ?w)" and stuck: "\<not> converts (accessToken ?odd)"
    by (simp_all add: token_simps run_simps example_simps converts_def)
  obtain r3 s3 w3
    where odd: "request ''GET'' ''/v1/agents/me'' Undefined False ?odd ?w = (r3, s3, w3)"
    by (cases "request ''GET'' ''/v1/agents/me'' Undefined False ?odd ?w")
  from request_timeout_and_timer [OF odd] valid stuck
  have "r3 = Inl (JsError ''TypeError'' ''Cannot convert object to primitive value'')"
    and "w3 = ?w"
    by blast+
  moreover have "s3 = ?odd"
    using odd valid by (simp add: request_def ensureValidToken_def split: sum.splits)
  ultimately have raw: "request ''GET'' ''/v1/agents/me'' Undefined False ?odd ?w
     = (Inl (JsError ''TypeError'' ''Cannot convert object to primitive value''), ?odd, ?w)"
    using odd by simp
  from run timed_out settled default default_time overflow raw show ?thesis by (intro conjI)
qed

section \<open>Polling: counting polls and responsive transports\<close>

text \<open>
  The status polls are the only \<open>GET\<close> calls the poller makes (the token exchanges are
  \<open>POST\<close>), so the polls made so far are the \<open>GET\<close> calls of the log.
\<close>

definition polls :: "world \<Rightarrow> nat" where
  "polls w = length (filter (\<lambda>c. httpMethod c = ''GET'') (calls w))"

text \<open>
  A payload whose fields can be converted wherever the client converts one: the access
  token it sends in a header, the lifetime it multiplies, and the job id, the estimated
  time and the progress it prints in its debug lines. None of them is an object with an
  own \<open>toString\<close> property, or an array that holds one.
\<close>

definition benign :: "jsval \<Rightarrow> bool" where
  "benign v =
     (converts (member v ''accessToken'') \<and> converts (member v ''expiresIn'')
      \<and> converts (member v ''jobId'') \<and> converts (member v ''estimatedTime'')
      \<and> converts (member v ''progress''))"

text \<open>
  A transport event that answers within \<open>d\<close> ms with an OK response and a success
  envelope whose payload is not \<open>null\<close>, is benign and satisfies \<open>P\<close>; a world all of
  whose events do.
\<close>

definition answers :: "(jsval \<Rightarrow> bool) \<Rightarrow> nat \<Rightarrow> event \<Rightarrow> bool" where
  "answers P d e =
     (case latency e of
        None \<Rightarrow> False
      | Some l \<Rightarrow>
          l < d \<and>
          (case outcome e of
             Response ok status (Json data) \<Rightarrow>
               ok \<and> \<not> nullish data \<and> truthy (member data ''success'')
               \<and> \<not> nullish (member data ''data'') \<and> benign (member data ''data'')
               \<and> P (member data ''data'')
           | _ \<Rightarrow> False))"

definition served :: "(jsval \<Rightarrow> bool) \<Rightarrow> nat \<Rightarrow> world \<Rightarrow> bool" where
  "served P d w = (\<forall>e \<in> sset (net w). answers P d e)"

lemma served_shd: "served P d w \<Longrightarrow> answers P d (shd (net w))"
  by (simp add: served_def shd_sset)

lemma served_stl: "served P d w \<Longrightarrow> net w1 = stl (net w) \<Longrightarrow> served P d w1"
  by (auto simp: served_def dest: stl_sset)

lemma answers_mono: "answers P d e \<Longrightarrow> (\<And>v. P v \<Longrightarrow> Q v) \<Longrightarrow> answers Q d e"
  by (auto simp: answers_def split: option.splits outcome.splits parsed.splits)

lemma served_mono: "served P d w \<Longrightarrow> (\<And>v. P v \<Longrightarrow> Q v) \<Longrightarrow> served Q d w"
  by (auto simp: served_def intro: answers_mono)

lemma unwrap_answer:
  assumes "\<not> nullish data" and "truthy (member data ''success'')"
    and "\<not> nullish (member data ''data'')"
  shows "unwrap True status data = Inr (member data ''data'')"
  using assms by (cases "member data ''data''") (simp_all add: unwrap_def getProp_def)

lemma send_answers:
  assumes "answers P d (shd (net w))" and "d \<le> timer_delay (timeout cfg)"
  shows "\<exists>v w1 l. send cfg m p b a w = (Inr v, w1) \<and> \<not> nullish v \<and> benign v \<and> P v
            \<and> net w1 = stl (net w) \<and> l < d \<and> now w1 = now w + int l"
proof -
  from assms(1) obtain l status data where l: "latency (shd (net w)) = Some l" "l < d"
    and out: "outcome (shd (net w)) = Response True status (Json data)"
    and data: "\<not> nullish data" "truthy (member data ''success'')"
      "\<not> nullish (member data ''data'')" "P (member data ''data'')"
      "benign (member data ''data'')"
    by (auto simp: answers_def split: option.splits outcome.splits parsed.splits)
  from l assms(2) have "l < timer_delay (timeout cfg)" by simp
  with l out unwrap_answer[OF data(1-3), of status] data(3,4,5) show ?thesis
    by (simp add: send_def setTimeout_def fetch_timely clearTimeout_def)
qed

lemma send_served:
  assumes "served P d w" and "d \<le> timer_delay (timeout cfg)"
  shows "\<exists>v w1 l. send cfg m p b a w = (Inr v, w1) \<and> \<not> nullish v \<and> benign v \<and> P v
            \<and> served P d w1 \<and> l < d \<and> now w1 = now w + int l"
  using send_answers[OF served_shd[OF assms(1)] assms(2), of m p b a] served_stl[OF assms(1)]
  by blast

lemma store_tokens_ok:
  assumes "\<not> nullish v" and "benign v"
  shows "\<exists>s1. store_tokens v s w = (Inr (), s1, w) \<and> config s1 = config s
            \<and> converts (accessToken s1)"
proof -
  from assms(2) have "converts (member v ''expiresIn'')" and tok: "converts (member v ''accessToken'')"
    by (simp_all add: benign_def)
  from converts_ToNumber[OF this(1)] obtain n where "ToNumber (member v ''expiresIn'') = Inr n"
    by blast
  with assms(1) tok show ?thesis
    by (simp add: store_tokens_def Let_def js_mul_def)
qed

lemma authenticate_served:
  assumes "served P d w" and "d \<le> timer_delay (timeout (config s))"
  shows "\<exists>s1 w1 l. authenticate s w = (Inr (), s1, w1) \<and> config s1 = config s
            \<and> converts (accessToken s1)
            \<and> served P d w1 \<and> l < d \<and> now w1 = now w + int l"
proof -
  from send_served[OF assms, of "''POST''" "''/v1/auth/token''"
      "Obj [(''apiKey'', apiKey (config s))]" None]
  obtain v w1 l where snd: "send (config s) ''POST'' ''/v1/auth/token''
        (Obj [(''apiKey'', apiKey (config s))]) None w = (Inr v, w1)"
    and v: "\<not> nullish v" "benign v" and rest: "served P d w1" "l < d" "now w1 = now w + int l"
    by blast
  from store_tokens_ok[OF v, of s w1] obtain s1
    where "store_tokens v s w1 = (Inr (), s1, w1)" "config s1 = config s"
      "converts (accessToken s1)"
    by blast
  with snd rest show ?thesis by (auto simp: authenticate_def)
qed

lemma refreshAccessToken_served:
  assumes "served P d w" and "d \<le> timer_delay (timeout (config s))"
  shows "\<exists>s1 w1 l. refreshAccessToken s w = (Inr (), s1, w1) \<and> config s1 = config s
            \<and> converts (accessToken s1)
            \<and> served P d w1 \<and> l < d \<and> now w1 = now w + int l"
proof -
  from send_served[OF assms, of "''POST''" "''/v1/auth/refresh''"
      "Obj [(''refreshToken'', refreshToken s)]" None]
  obtain v w1 l where snd: "send (config s) ''POST'' ''/v1/auth/refresh''
        (Obj [(''refreshToken'', refreshToken s)]) None w = (Inr v, w1)"
    and v: "\<not> nullish v" "benign v" and rest: "served P d w1" "l < d" "now w1 = now w + int l"
    by blast
  from store_tokens_ok[OF v, of s w1] obtain s1
    where "store_tokens v s w1 = (Inr (), s1, w1)" "config s1 = config s"
      "converts (accessToken s1)"
    by blast
  with snd rest show ?thesis by (auto simp: refreshAccessToken_def)
qed

lemma served_pos: "served P d w \<Longrightarrow> 0 < d"
  by (drule served_shd) (auto simp: answers_def split: option.splits)

lemma polls_send:
  "send cfg m p b a w = (r, w1) \<Longrightarrow> polls w1 = polls w + (if m = ''GET'' then 1 else 0)"
  by (drule calls_send) (simp add: polls_def)

lemma polls_authenticate: "authenticate s w = (r, s1, w1) \<Longrightarrow> polls w1 = polls w"
  by (drule calls_authenticate) (simp add: polls_def authenticate_call_def)

lemma polls_refreshAccessToken: "refreshAccessToken s w = (r, s1, w1) \<Longrightarrow> polls w1 = polls w"
  by (drule calls_refreshAccessToken) (simp add: polls_def refresh_call_def)

lemma polls_authenticate_and_return:
  "authenticate_and_return s w = (r, s1, w1) \<Longrightarrow> polls w1 = polls w"
  by (drule calls_authenticate_and_return) (simp add: polls_def authenticate_call_def)

lemma polls_ensureValidToken: "ensureValidToken s w = (r, s1, w1) \<Longrightarrow> polls w1 = polls w"
  unfolding ensureValidToken_def
  by (auto split: prod.splits sum.splits if_splits
      dest!: polls_refreshAccessToken polls_authenticate_and_return)

lemma polls_request:
  assumes "request m p b sk s w = (r, s1, w1)"
  shows "polls w1 \<le> polls w + (if m = ''GET'' then 1 else 0)
         \<and> (\<forall>v. r = Inr v \<longrightarrow> polls w1 = polls w + (if m = ''GET'' then 1 else 0))"
  using assms unfolding request_def
  by (auto split: prod.splits sum.splits if_splits
      dest!: polls_ensureValidToken polls_send)

lemma polls_getMediaJobStatus:
  assumes "getMediaJobStatus jobId s w = (r, s1, w1)"
  shows "polls w1 \<le> polls w + 1 \<and> (\<forall>v. r = Inr v \<longrightarrow> polls w1 = polls w + 1)"
proof (cases "ToString jobId")
  case (Inl t)
  with assms show ?thesis by (auto simp: getMediaJobStatus_def)
next
  case (Inr j)
  with assms have "request ''GET'' (''/v1/media/status/'' @ j) Undefined False s w = (r, s1, w1)"
    by (simp add: getMediaJobStatus_def)
  from polls_request[OF this] show ?thesis by simp
qed

lemma authenticate_and_return_served:
  assumes "served P d w" and "d \<le> timer_delay (timeout (config s))"
  shows "\<exists>s1 w1 l. authenticate_and_return s w = (Inr (accessToken s1), s1, w1)
            \<and> config s1 = config s \<and> converts (accessToken s1)
            \<and> served P d w1 \<and> l < d \<and> now w1 = now w + int l"
  using authenticate_served[OF assms] by (auto simp: authenticate_and_return_def)

lemma ensureValidToken_served:
  assumes "served P d w" and "d \<le> timer_delay (timeout (config s))"
    and "converts (accessToken s)"
  shows "\<exists>s1 w1. ensureValidToken s w = (Inr (accessToken s1), s1, w1) \<and> config s1 = config s
            \<and> converts (accessToken s1)
            \<and> served P d w1 \<and> now w \<le> now w1 \<and> now w1 \<le> now w + 2 * (int d - 1)"
proof (cases "isValid s (now w)")
  case True
  with assms served_pos[OF assms(1)] show ?thesis by (simp add: ensureValidToken_def)
next
  case invalid: False
  show ?thesis
  proof (cases "truthy (refreshToken s)")
    case False
    from authenticate_and_return_served[OF assms(1,2)] obtain s1 w1 l
      where "authenticate_and_return s w = (Inr (accessToken s1), s1, w1)" "config s1 = config s"
        "converts (accessToken s1)" "served P d w1" "l < d" "now w1 = now w + int l"
      by blast
    with invalid False show ?thesis by (simp add: ensureValidToken_def)
  next
    case True
    from refreshAccessToken_served[OF assms(1,2)] obtain s0 w0 l0
      where rf: "refreshAccessToken s w = (Inr (), s0, w0)" and c0: "config s0 = config s"
        and cv0: "converts (accessToken s0)"
        and sv0: "served P d w0" and l0: "l0 < d" "now w0 = now w + int l0"
      by blast
    show ?thesis
    proof (cases "truthy (accessToken s0)")
      case True
      with invalid \<open>truthy (refreshToken s)\<close> rf c0 cv0 sv0 l0 show ?thesis
        by (simp add: ensureValidToken_def)
    next
      case False
      from assms(2) c0 have "d \<le> timer_delay (timeout (config s0))" by simp
      from authenticate_and_return_served[OF sv0 this] obtain s1 w1 l
        where "authenticate_and_return s0 w0 = (Inr (accessToken s1), s1, w1)"
          "config s1 = config s0" "converts (accessToken s1)"
          "served P d w1" "l < d" "now w1 = now w0 + int l"
        by blast
      with invalid \<open>truthy (refreshToken s)\<close> rf c0 l0 False show ?thesis
        by (simp add: ensureValidToken_def)
    qed
  qed
qed

lemma request_served:
  assumes "served P d w" and "d \<le> timer_delay (timeout (config s))"
    and "converts (accessToken s)"
  shows "\<exists>v s1 w1. request m p b False s w = (Inr v, s1, w1) \<and> \<not> nullish v \<and> benign v \<and> P v
            \<and> config s1 = config s \<and> converts (accessToken s1) \<and> served P d w1
            \<and> now w \<le> now w1 \<and> now w1 \<le> now w + 3 * (int d - 1)"
proof -
  from ensureValidToken_served[OF assms] obtain s1 w1
    where ev: "ensureValidToken s w = (Inr (accessToken s1), s1, w1)" and c1: "config s1 = config s"
      and cv: "converts (accessToken s1)"
      and sv: "served P d w1" and t1: "now w \<le> now w1" "now w1 \<le> now w + 2 * (int d - 1)"
    by blast
  from converts_Inr[OF cv] obtain tk where tk: "ToString (accessToken s1) = Inr tk"
    by blast
  from assms(2) c1 have "d \<le> timer_delay (timeout (config s1))" by simp
  from send_served[OF sv this, of m p b "Some (''Bearer '' @ tk)"]
  obtain v w2 l where "send (config s1) m p b (Some (''Bearer '' @ tk)) w1 = (Inr v, w2)"
    "\<not> nullish v" "benign v" "P v" "served P d w2" "l < d" "now w2 = now w1 + int l"
    by blast
  with ev c1 cv tk t1 show ?thesis by (simp add: request_def)
qed

text \<open>A status payload that is not terminal.\<close>

definition pending_poll :: "jsval \<Rightarrow> bool" where
  "pending_poll status =
     (\<not> (member status ''status'' = Str ''completed'' \<and> truthy (member status ''result''))
      \<and> member status ''status'' \<noteq> Str ''failed'')"

text \<open>How many polls fit before the ceiling when \<open>x\<close> ms of it are left.\<close>

definition polls_left :: "int \<Rightarrow> nat" where
  "polls_left x = nat ((x + 1999) div 2000)"

lemma polls_left_0: "x \<le> 0 \<Longrightarrow> polls_left x = 0"
  by (simp add: polls_left_def)

lemma polls_left_step: "0 < x \<Longrightarrow> polls_left x = Suc (polls_left (x - 2000))"
  by (simp add: polls_left_def)

lemma polls_left_mono: "x \<le> y \<Longrightarrow> polls_left x \<le> polls_left y"
  by (simp add: polls_left_def)

lemma served_sleep: "served P d (sleep ms w) = served P d w"
  by (simp add: served_def sleep_def setTimeout_def fired_def)

lemma polls_sleep: "polls (sleep ms w) = polls w"
  by (simp add: polls_def sleep_def setTimeout_def fired_def)

lemma template_Inr: "converts a \<Longrightarrow> converts b \<Longrightarrow> \<exists>line. template [a, b] = Inr line"
  by (auto simp: template_def dest!: converts_Inr)

lemma template_Inl:
  "converts a \<Longrightarrow> ToString b = Inl t \<Longrightarrow> template [a, b] = Inl t"
  by (auto simp: template_def dest!: converts_Inr)

lemma getMediaJobStatus_converts:
  "getMediaJobStatus jobId s w = (Inr v, s1, w1) \<Longrightarrow> converts jobId"
  by (cases "ToString jobId") (simp_all add: getMediaJobStatus_def converts_def)

lemma member_nullish: "nullish v \<Longrightarrow> member v k = Undefined"
  by (cases v) simp_all


lemma poll_loop_completed:
  assumes "now w - startTime < maxWaitMs"
    and "getMediaJobStatus jobId s (sleep (Num pollIntervalMs) w) = (Inr status, s', w')"
    and "member status ''status'' = Str ''completed''" and "truthy (member status ''result'')"
  shows "poll_loop input jobId startTime s w = (Inr (member status ''result''), s', w')"
proof -
  from assms(3) member_nullish[of status "''status''"] have "\<not> nullish status"
    by auto
  with assms show ?thesis
    by (simp add: poll_loop.simps[of input jobId startTime s w] getProp_def)
qed

lemma poll_loop_failed:
  assumes "now w - startTime < maxWaitMs"
    and "getMediaJobStatus jobId s (sleep (Num pollIntervalMs) w) = (Inr status, s', w')"
    and "member status ''status'' = Str ''failed''"
  shows "poll_loop input jobId startTime s w
           = (Inr (synthesized input ''Media generation failed''), s', w')"
proof -
  from assms(3) member_nullish[of status "''status''"] have "\<not> nullish status"
    by auto
  with assms show ?thesis
    by (simp add: poll_loop.simps[of input jobId startTime s w] getProp_def)
qed

lemma poll_loop_again:
  assumes "now w - startTime < maxWaitMs"
    and "getMediaJobStatus jobId s (sleep (Num pollIntervalMs) w) = (Inr status, s', w')"
    and "\<not> nullish status" and "pending_poll status" and "converts (member status ''progress'')"
  shows "poll_loop input jobId startTime s w = poll_loop input jobId startTime s' w'"
proof -
  from template_Inr[OF getMediaJobStatus_converts[OF assms(2)] assms(5)]
  obtain line where "template [jobId, member status ''progress''] = Inr line"
    by blast
  with assms(1-4) show ?thesis
    by (auto simp: poll_loop.simps[of input jobId startTime s w] getProp_def pending_poll_def)
qed

lemma poll_loop_progress_throws:
  assumes "now w - startTime < maxWaitMs"
    and "getMediaJobStatus jobId s (sleep (Num pollIntervalMs) w) = (Inr status, s', w')"
    and "\<not> nullish status" and "pending_poll status"
    and "ToString (member status ''progress'') = Inl t"
  shows "poll_loop input jobId startTime s w = (Inl t, s', w')"
proof -
  from template_Inl[OF getMediaJobStatus_converts[OF assms(2)] assms(5)]
  have "template [jobId, member status ''progress''] = Inl t" .
  with assms(1-4) show ?thesis
    by (auto simp: poll_loop.simps[of input jobId startTime s w] getProp_def pending_poll_def)
qed

lemma poll_loop_ceiling:
  "\<not> now w - startTime < maxWaitMs \<Longrightarrow>
   poll_loop input jobId startTime s w = (Inr (synthesized input ''Media generation timed out''), s, w)"
  by (simp add: poll_loop.simps[of input jobId startTime s w])

lemma polls_poll_loop:
  "poll_loop input jobId startTime s w = (r, s1, w1) \<Longrightarrow>
   polls w1 \<le> polls w + polls_left (startTime + maxWaitMs - now w)"
proof (induction input jobId startTime s w rule: poll_loop.induct)
  case (1 input jobId startTime s w)
  show ?case
  proof (cases "now w - startTime < maxWaitMs")
    case False
    with "1.prems" show ?thesis by (simp add: poll_loop.simps)
  next
    case True
    obtain q s' w' where st: "getMediaJobStatus jobId s (sleep (Num pollIntervalMs) w) = (q, s', w')"
      by (cases "getMediaJobStatus jobId s (sleep (Num pollIntervalMs) w)")
    from polls_getMediaJobStatus[OF st] have one: "polls w' \<le> polls w + 1"
      by (simp add: polls_sleep)
    from now_getMediaJobStatus[OF st] have later: "now w + 2000 \<le> now w'"
      by (simp add: now_sleep)
    from True have step: "polls_left (startTime + maxWaitMs - now w)
        = Suc (polls_left (startTime + maxWaitMs - now w - 2000))"
      by (intro polls_left_step) simp
    from later have less: "polls_left (startTime + maxWaitMs - now w')
        \<le> polls_left (startTime + maxWaitMs - now w - 2000)"
      by (intro polls_left_mono) simp
    show ?thesis
    proof (cases "\<exists>status st line. q = Inr status \<and> getProp status ''status'' = Inr st
        \<and> \<not> (st = Str ''completed'' \<and> truthy (member status ''result''))
        \<and> st \<noteq> Str ''failed''
        \<and> template [jobId, member status ''progress''] = Inr line")
      case False
      with "1.prems" True st have "w1 = w'"
        by (auto simp: poll_loop.simps[of input jobId startTime s w] split: sum.splits if_splits)
      with one step show ?thesis by simp
    next
      case again: True
      then obtain status st line where q: "q = Inr status" and g: "getProp status ''status'' = Inr st"
        and n1: "\<not> (st = Str ''completed'' \<and> truthy (member status ''result''))"
        and n2: "st \<noteq> Str ''failed''"
        and tl: "template [jobId, member status ''progress''] = Inr line"
        by blast
      from "1.prems" True st q g n1 n2 tl
      have rec: "poll_loop input jobId startTime s' w' = (r, s1, w1)"
        by (simp add: poll_loop.simps[of input jobId startTime s w])
      from "1.IH"[OF True st[symmetric] q refl g n1 n2 tl rec]
      have "polls w1 \<le> polls w' + polls_left (startTime + maxWaitMs - now w')" .
      with one step less show ?thesis by simp
    qed
  qed
qed

text \<open>
  The loop in a world that keeps answering with payloads that are not terminal: it ends
  at the ceiling, each round having taken its 2000 ms of sleep and at most \<open>3 (d - 1)\<close> ms
  of requests (a status fetch, and at most two token exchanges before it).
\<close>

lemma poll_loop_served:
  assumes "served pending_poll d w" and "d \<le> timer_delay (timeout (config s))"
    and "converts jobId" and "converts (accessToken s)"
  shows "\<exists>s1 w1. poll_loop input jobId startTime s w
              = (Inr (synthesized input ''Media generation timed out''), s1, w1)
           \<and> maxWaitMs \<le> now w1 - startTime
           \<and> polls w \<le> polls w1
           \<and> 2000 * (int (polls w1) - int (polls w)) \<le> now w1 - now w
           \<and> now w1 - now w \<le> (2000 + 3 * (int d - 1)) * (int (polls w1) - int (polls w))
           \<and> (d = 1 \<longrightarrow> polls w1 = polls w + polls_left (startTime + maxWaitMs - now w))"
  using assms
proof (induction input jobId startTime s w rule: poll_loop.induct)
  case (1 input jobId startTime s w)
  show ?case
  proof (cases "now w - startTime < maxWaitMs")
    case False
    then show ?thesis by (simp add: poll_loop.simps polls_left_0)
  next
    case True
    let ?w = "sleep (Num pollIntervalMs) w"
    from "1.prems"(1) have "served pending_poll d ?w" by (simp add: served_sleep)
    from request_served[OF this "1.prems"(2) "1.prems"(4), of "''GET''" _ Undefined]
      converts_Inr[OF "1.prems"(3)]
    obtain status s' w' where st: "getMediaJobStatus jobId s ?w = (Inr status, s', w')"
      and nn: "\<not> nullish status" and pend: "pending_poll status" and ben: "benign status"
      and cfg: "config s' = config s" and cv: "converts (accessToken s')"
      and sv: "served pending_poll d w'"
      and t: "now ?w \<le> now w'" "now w' \<le> now ?w + 3 * (int d - 1)"
      by (fastforce simp: getMediaJobStatus_def)
    from nn have g: "getProp status ''status'' = Inr (member status ''status'')"
      by (simp add: getProp_def)
    from pend have n1: "\<not> (member status ''status'' = Str ''completed''
          \<and> truthy (member status ''result''))"
      and n2: "member status ''status'' \<noteq> Str ''failed''"
      by (simp_all add: pending_poll_def)
    from ben have "converts (member status ''progress'')"
      by (simp add: benign_def)
    from template_Inr[OF "1.prems"(3) this]
    obtain line where tl: "template [jobId, member status ''progress''] = Inr line"
      by blast
    from "1.prems"(2) cfg have d: "d \<le> timer_delay (timeout (config s'))" by simp
    from "1.IH"[OF True st[symmetric] refl refl g n1 n2 tl sv d "1.prems"(3) cv]
    obtain s1 w1 where rec: "poll_loop input jobId startTime s' w'
              = (Inr (synthesized input ''Media generation timed out''), s1, w1)"
      and late: "maxWaitMs \<le> now w1 - startTime"
      and mono: "polls w' \<le> polls w1"
      and lo: "2000 * (int (polls w1) - int (polls w')) \<le> now w1 - now w'"
      and hi: "now w1 - now w' \<le> (2000 + 3 * (int d - 1)) * (int (polls w1) - int (polls w'))"
      and cnt: "d = 1 \<longrightarrow> polls w1 = polls w' + polls_left (startTime + maxWaitMs - now w')"
      by blast
    from True st g n1 n2 tl
    have "poll_loop input jobId startTime s w = poll_loop input jobId startTime s' w'"
      by (auto simp: poll_loop.simps[of input jobId startTime s w])
    with rec have here: "poll_loop input jobId startTime s w
              = (Inr (synthesized input ''Media generation timed out''), s1, w1)"
      by simp
    from polls_getMediaJobStatus[OF st] have one: "polls w' = polls w + 1"
      by (simp add: polls_sleep)
    from t have round: "now w + 2000 \<le> now w'" "now w' \<le> now w + 2000 + 3 * (int d - 1)"
      by (simp_all add: now_sleep)
    from one mono have mono': "polls w \<le> polls w1" by simp
    from one lo round(1) have lo': "2000 * (int (polls w1) - int (polls w)) \<le> now w1 - now w"
      by simp
    have "(2000 + 3 * (int d - 1)) * (int (polls w1) - int (polls w))
        = (2000 + 3 * (int d - 1)) * (int (polls w1) - int (polls w')) + (2000 + 3 * (int d - 1))"
      using one by (simp add: algebra_simps)
    with hi round(2)
    have hi': "now w1 - now w \<le> (2000 + 3 * (int d - 1)) * (int (polls w1) - int (polls w))"
      by simp
    have "d = 1 \<longrightarrow> polls w1 = polls w + polls_left (startTime + maxWaitMs - now w)"
    proof
      assume d1: "d = 1"
      with round have "now w' = now w + 2000" by simp
      moreover from True have "polls_left (startTime + maxWaitMs - now w)
        = Suc (polls_left (startTime + maxWaitMs - now w - 2000))"
        by (intro polls_left_step) simp
      ultimately show "polls w1 = polls w + polls_left (startTime + maxWaitMs - now w)"
        using cnt d1 one by (simp add: algebra_simps)
    qed
    with here late mono' lo' hi' show ?thesis by blast
  qed
qed

lemma polls_left_ceiling: "polls_left 300000 = 150"
  by (simp add: polls_left_def)

lemma timer_delay_pos: "1 \<le> timer_delay v"
  by (cases "number_of v") (auto simp: timer_delay_def)

section \<open>The poller's cadence and outcomes\<close>

text \<open>An input, a result and the answer to a submit, for concrete runs.\<close>

definition image_input :: jsval where
  "image_input = Obj [(''type'', Str ''image''), (''prompt'', Str ''a lighthouse''), (''model'', Str ''flux'')]"

definition image_result :: jsval where
  "image_result =
     Obj [(''success'', Bool True), (''url'', Str ''https://cdn.zilligon.com/m/1.png''),
          (''mimeType'', Str ''image/png'')]"

definition job_queued :: event where
  "job_queued =
     responds 10 True 200 (success_body (Obj [(''jobId'', Str ''job_1''), (''status'', Str ''queued'')]))"

lemma generateMediaAndWait_after_submit:
  assumes "submitMediaJob (job_spec input) s w = (Inr job, s', w')" and "\<not> nullish job"
    and "converts (member job ''jobId'')" and "converts (member job ''estimatedTime'')"
  shows "generateMediaAndWait input s w = poll_loop input (member job ''jobId'') (now w') s' w'"
proof -
  from template_Inr[OF assms(3,4)]
  obtain line where "template [member job ''jobId'', member job ''estimatedTime''] = Inr line"
    by blast
  with assms(1,2) show ?thesis
    by (simp add: generateMediaAndWait_def getProp_def)
qed

lemma submit_queued:
  "submitMediaJob (job_spec image_input) valid_client (world_at 1000 (job_queued ## es))
     = (Inr (Obj [(''jobId'', Str ''job_1''), (''status'', Str ''queued'')]), valid_client,
        \<lparr> now = 1010, net = es,
          calls = [\<lparr> url = ''https://api.zilligon.com/v1/media/generate'', httpMethod = ''POST'',
                     authorization = Some ''Bearer tok'',
                     body = Some (Obj [(''type'', Str ''image''), (''model'', Str ''flux''),
                                       (''prompt'', Str ''a lighthouse''),
                                       (''options'', Obj [(''aspectRatio'', Undefined),
                                          (''duration'', Undefined), (''voice'', Undefined),
                                          (''style'', Undefined), (''negativePrompt'', Undefined)])]) \<rparr>],
          timers = [], nextTimer = 1 \<rparr>)"
  by (simp add: submitMediaJob_def job_spec_def image_input_def job_queued_def
      token_simps run_simps example_simps)

lemma generate_queued:
  "generateMediaAndWait image_input valid_client (world_at 1000 (job_queued ## es))
     = poll_loop image_input (Str ''job_1'') 1010 valid_client
        \<lparr> now = 1010, net = es,
          calls = [\<lparr> url = ''https://api.zilligon.com/v1/media/generate'', httpMethod = ''POST'',
                     authorization = Some ''Bearer tok'',
                     body = Some (Obj [(''type'', Str ''image''), (''model'', Str ''flux''),
                                       (''prompt'', Str ''a lighthouse''),
                                       (''options'', Obj [(''aspectRatio'', Undefined),
                                          (''duration'', Undefined), (''voice'', Undefined),
                                          (''style'', Undefined), (''negativePrompt'', Undefined)])]) \<rparr>],
          timers = [], nextTimer = 1 \<rparr>"
  using generateMediaAndWait_after_submit[OF submit_queued, of es]
  by (simp add: converts_def)

text \<open>
  Claim C7 as stated fails: when the status polls are answered with a payload that is
  not terminal, \<open>{ status: 'processing', progress: { toString: null } }\<close>, the call
  does not go on polling to the ceiling and return the timed-out result; it throws a
  TypeError after the first poll, 2005 ms after the submit was answered.
\<close>

theorem poll_loop_progress_counterexample:
  "fst (generateMediaAndWait image_input valid_client
         (world_at 1000 (job_queued ## sconst (responds 5 True 200
            (success_body (Obj [(''status'', Str ''processing''),
                                (''progress'', Obj [(''toString'', Null)])]))))))
     = Inl (JsError ''TypeError'' ''Cannot convert object to primitive value'')
   \<and> polls (snd (snd (generateMediaAndWait image_input valid_client
         (world_at 1000 (job_queued ## sconst (responds 5 True 200
            (success_body (Obj [(''status'', Str ''processing''),
                                (''progress'', Obj [(''toString'', Null)])]))))))))
     = 1
   \<and> now (snd (snd (generateMediaAndWait image_input valid_client
         (world_at 1000 (job_queued ## sconst (responds 5 True 200
            (success_body (Obj [(''status'', Str ''processing''),
                                (''progress'', Obj [(''toString'', Null)])]))))))))
     = 3015"
proof -
  let ?es = "sconst (responds 5 True 200
            (success_body (Obj [(''status'', Str ''processing''),
                                (''progress'', Obj [(''toString'', Null)])])))"
  let ?w0 = "\<lparr> now = 1010, net = ?es,
          calls = [\<lparr> url = ''https://api.zilligon.com/v1/media/generate'', httpMethod = ''POST'',
                     authorization = Some ''Bearer tok'',
                     body = Some (Obj [(''type'', Str ''image''), (''model'', Str ''flux''),
                                       (''prompt'', Str ''a lighthouse''),
                                       (''options'', Obj [(''aspectRatio'', Undefined),
                                          (''duration'', Undefined), (''voice'', Undefined),
                                          (''style'', Undefined), (''negativePrompt'', Undefined)])]) \<rparr>],
          timers = [], nextTimer = 1 \<rparr>"
  let ?status = "Obj [(''status'', Str ''processing''), (''progress'', Obj [(''toString'', Null)])]"
  obtain s' w' where poll: "getMediaJobStatus (Str ''job_1'') valid_client
      (sleep (Num pollIntervalMs) ?w0) = (Inr ?status, s', w')"
    and "polls w' = 1" and "now w' = 3015"
    by (simp add: getMediaJobStatus_def sleep_def pollIntervalMs_def token_simps run_simps
        example_simps polls_def)
  moreover have "poll_loop image_input (Str ''job_1'') 1010 valid_client ?w0
      = (Inl cannot_convert, s', w')"
    using poll_loop_progress_throws[OF _ poll, where startTime = 1010 and t = cannot_convert
        and input = image_input]
    by (simp add: maxWaitMs_def pending_poll_def cannot_convert_def)
  ultimately show ?thesis
    by (simp add: generate_queued cannot_convert_def)
qed

text \<open>
  Claim C7, amended. Let the polling loop, entered with \<open>startTime\<close>, return or throw
  \<open>r\<close> leaving client \<open>s1\<close> and world \<open>w1\<close>. Each round first sleeps 2000 ms and then
  fetches the status, in the world the sleep left. While the ceiling of 300000 ms has not
  been reached: a status \<open>completed\<close> with a result attached returns that result, and a
  status \<open>failed\<close> returns the made-up result with \<open>success: false\<close> and the error
  \<open>Media generation failed\<close>; in both cases the client and world returned are those
  the status fetch left, so nothing is polled after it, and nothing is thrown. A payload
  that is not terminal and whose \<open>progress\<close> cannot be converted to a string makes the
  loop throw the TypeError of that conversion, at that poll. Once the ceiling is reached
  the loop returns the made-up result with the error \<open>Media generation timed out\<close>. So
  it does, and not before 300000 ms have passed since the start time, whenever the
  transport keeps answering within \<open>d\<close> ms with benign payloads that are not terminal
  (and the job id and the stored token can be converted to strings): the polls made are
  then at least 2000 ms and at most \<open>2000 + 3 (d - 1)\<close> ms apart on average. The number
  of polls: a loop entered at its start time never makes more than 150
  (= 300000 / 2000) polls, and makes exactly 150 before timing out when the transport
  answers at once with such payloads.
\<close>

theorem poll_loop_cadence_and_outcomes:
  assumes "poll_loop input jobId startTime s w = (r, s1, w1)"
  shows "now (sleep (Num pollIntervalMs) w) = now w + 2000
     \<and> (now w - startTime < 300000 \<longrightarrow>
          (\<forall>status s' w'.
              getMediaJobStatus jobId s (sleep (Num pollIntervalMs) w) = (Inr status, s', w')
              \<and> member status ''status'' = Str ''completed'' \<and> truthy (member status ''result'')
              \<longrightarrow> r = Inr (member status ''result'') \<and> s1 = s' \<and> w1 = w'))
     \<and> (now w - startTime < 300000 \<longrightarrow>
          (\<forall>status s' w'.
              getMediaJobStatus jobId s (sleep (Num pollIntervalMs) w) = (Inr status, s', w')
              \<and> member status ''status'' = Str ''failed''
              \<longrightarrow> r = Inr (synthesized input ''Media generation failed'') \<and> s1 = s' \<and> w1 = w'))
     \<and> (now w - startTime < 300000 \<longrightarrow>
          (\<forall>status s' w' t.
              getMediaJobStatus jobId s (sleep (Num pollIntervalMs) w) = (Inr status, s', w')
              \<and> \<not> nullish status \<and> pending_poll status
              \<and> ToString (member status ''progress'') = Inl t
              \<longrightarrow> r = Inl t \<and> s1 = s' \<and> w1 = w'))
     \<and> (\<not> now w - startTime < 300000 \<longrightarrow>
          r = Inr (synthesized input ''Media generation timed out'') \<and> s1 = s \<and> w1 = w)
     \<and> (\<forall>d. served pending_poll d w \<and> d \<le> timer_delay (timeout (config s))
              \<and> converts jobId \<and> converts (accessToken s) \<longrightarrow>
          r = Inr (synthesized input ''Media generation timed out'')
          \<and> 300000 \<le> now w1 - startTime
          \<and> 2000 * (int (polls w1) - int (polls w)) \<le> now w1 - now w
          \<and> now w1 - now w \<le> (2000 + 3 * (int d - 1)) * (int (polls w1) - int (polls w)))
     \<and> (startTime \<le> now w \<longrightarrow> polls w1 \<le> polls w + 150)
     \<and> (served pending_poll 1 w \<and> startTime = now w \<and> converts jobId \<and> converts (accessToken s)
          \<longrightarrow> polls w1 = polls w + 150)
     \<and> member (synthesized input msg) ''success'' = Bool False
     \<and> member (synthesized input msg) ''error'' = Str msg"
proof -
  have A: "now (sleep (Num pollIntervalMs) w) = now w + 2000"
    by (rule now_sleep)
  have B: "now w - startTime < 300000 \<longrightarrow>
          (\<forall>status s' w'.
              getMediaJobStatus jobId s (sleep (Num pollIntervalMs) w) = (Inr status, s', w')
              \<and> member status ''status'' = Str ''completed'' \<and> truthy (member status ''result'')
              \<longrightarrow> r = Inr (member status ''result'') \<and> s1 = s' \<and> w1 = w')"
  proof (intro impI allI)
    fix status s' w'
    assume run: "now w - startTime < 300000"
      and "getMediaJobStatus jobId s (sleep (Num pollIntervalMs) w) = (Inr status, s', w')
              \<and> member status ''status'' = Str ''completed'' \<and> truthy (member status ''result'')"
    then have "poll_loop input jobId startTime s w = (Inr (member status ''result''), s', w')"
      using poll_loop_completed[of w startTime jobId s status s' w' input]
      by (simp add: maxWaitMs_def)
    with assms show "r = Inr (member status ''result'') \<and> s1 = s' \<and> w1 = w'"
      by simp
  qed
  have C: "now w - startTime < 300000 \<longrightarrow>
          (\<forall>status s' w'.
              getMediaJobStatus jobId s (sleep (Num pollIntervalMs) w) = (Inr status, s', w')
              \<and> member status ''status'' = Str ''failed''
              \<longrightarrow> r = Inr (synthesized input ''Media generation failed'') \<and> s1 = s' \<and> w1 = w')"
  proof (intro impI allI)
    fix status s' w'
    assume run: "now w - startTime < 300000"
      and "getMediaJobStatus jobId s (sleep (Num pollIntervalMs) w) = (Inr status, s', w')
              \<and> member status ''status'' = Str ''failed''"
    then have "poll_loop input jobId startTime s w
        = (Inr (synthesized input ''Media generation failed''), s', w')"
      using poll_loop_failed[of w startTime jobId s status s' w' input]
      by (simp add: maxWaitMs_def)
    with assms show "r = Inr (synthesized input ''Media generation failed'') \<and> s1 = s' \<and> w1 = w'"
      by simp
  qed
  have T: "now w - startTime < 300000 \<longrightarrow>
          (\<forall>status s' w' t.
              getMediaJobStatus jobId s (sleep (Num pollIntervalMs) w) = (Inr status, s', w')
              \<and> \<not> nullish status \<and> pending_poll status
              \<and> ToString (member status ''progress'') = Inl t
              \<longrightarrow> r = Inl t \<and> s1 = s' \<and> w1 = w')"
  proof (intro impI allI)
    fix status s' w' t
    assume run: "now w - startTime < 300000"
      and "getMediaJobStatus jobId s (sleep (Num pollIntervalMs) w) = (Inr status, s', w')
              \<and> \<not> nullish status \<and> pending_poll status
              \<and> ToString (member status ''progress'') = Inl t"
    then have "poll_loop input jobId startTime s w = (Inl t, s', w')"
      using poll_loop_progress_throws[of w startTime jobId s status s' w' t input]
      by (simp add: maxWaitMs_def)
    with assms show "r = Inl t \<and> s1 = s' \<and> w1 = w'"
      by simp
  qed
  have D: "\<not> now w - startTime < 300000 \<longrightarrow>
          r = Inr (synthesized input ''Media generation timed out'') \<and> s1 = s \<and> w1 = w"
    using assms poll_loop_ceiling[of w startTime input jobId s] by (auto simp: maxWaitMs_def)
  have E: "\<forall>d. served pending_poll d w \<and> d \<le> timer_delay (timeout (config s))
              \<and> converts jobId \<and> converts (accessToken s) \<longrightarrow>
          r = Inr (synthesized input ''Media generation timed out'')
          \<and> 300000 \<le> now w1 - startTime
          \<and> 2000 * (int (polls w1) - int (polls w)) \<le> now w1 - now w
          \<and> now w1 - now w \<le> (2000 + 3 * (int d - 1)) * (int (polls w1) - int (polls w))"
  proof (intro allI impI)
    fix d
    assume "served pending_poll d w \<and> d \<le> timer_delay (timeout (config s))
              \<and> converts jobId \<and> converts (accessToken s)"
    then obtain s' w' where "poll_loop input jobId startTime s w
              = (Inr (synthesized input ''Media generation timed out''), s', w')"
      and "maxWaitMs \<le> now w' - startTime"
      and "2000 * (int (polls w') - int (polls w)) \<le> now w' - now w"
      and "now w' - now w \<le> (2000 + 3 * (int d - 1)) * (int (polls w') - int (polls w))"
      using poll_loop_served[of d w s jobId input startTime] by blast
    with assms show "r = Inr (synthesized input ''Media generation timed out'')
          \<and> 300000 \<le> now w1 - startTime
          \<and> 2000 * (int (polls w1) - int (polls w)) \<le> now w1 - now w
          \<and> now w1 - now w \<le> (2000 + 3 * (int d - 1)) * (int (polls w1) - int (polls w))"
      by (simp add: maxWaitMs_def)
  qed
  have F: "startTime \<le> now w \<longrightarrow> polls w1 \<le> polls w + 150"
  proof
    assume "startTime \<le> now w"
    then have "polls_left (startTime + maxWaitMs - now w) \<le> polls_left 300000"
      by (intro polls_left_mono) (simp add: maxWaitMs_def)
    with polls_poll_loop[OF assms] show "polls w1 \<le> polls w + 150"
      by (simp add: polls_left_ceiling)
  qed
  have G: "served pending_poll 1 w \<and> startTime = now w \<and> converts jobId \<and> converts (accessToken s)
          \<longrightarrow> polls w1 = polls w + 150"
  proof
    assume h: "served pending_poll 1 w \<and> startTime = now w \<and> converts jobId
      \<and> converts (accessToken s)"
    have "1 \<le> timer_delay (timeout (config s))"
      by (rule timer_delay_pos)
    with h obtain s' w' where "poll_loop input jobId startTime s w
              = (Inr (synthesized input ''Media generation timed out''), s', w')"
        and "polls w' = polls w + polls_left (startTime + maxWaitMs - now w)"
      using poll_loop_served[of 1 w s jobId input startTime] by auto
    with assms h show "polls w1 = polls w + 150"
      by (simp add: maxWaitMs_def polls_left_ceiling)
  qed
  have H: "member (synthesized input msg) ''success'' = Bool False"
    and I: "member (synthesized input msg) ''error'' = Str msg"
    by (simp_all add: synthesized_def)
  from A B C T D E F G H I show ?thesis by (intro conjI)
qed

theorem poll_loop_cadence_and_outcomes_witness:
  "poll_loop image_input (Str ''job_1'') 1000 valid_client
      (world_at 1000 (sconst (responds 5 True 200
         (success_body (Obj [(''status'', Str ''completed''), (''result'', image_result)])))))
     = (Inr image_result, valid_client,
        \<lparr> now = 3005,
          net = sconst (responds 5 True 200
            (success_body (Obj [(''status'', Str ''completed''), (''result'', image_result)]))),
          calls = [\<lparr> url = ''https://api.zilligon.com/v1/media/status/job_1'', httpMethod = ''GET'',
                     authorization = Some ''Bearer tok'', body = None \<rparr>],
          timers = [], nextTimer = 2 \<rparr>)
   \<and> fst (poll_loop image_input (Str ''job_1'') 1000 valid_client
         (world_at 1000 (sconst (responds 5 True 200
            (success_body (Obj [(''status'', Str ''failed'')]))))))
     = Inr (Obj [(''success'', Bool False), (''mimeType'', Str []), (''provider'', Str ''unknown''),
                 (''modelId'', Str ''flux''), (''error'', Str ''Media generation failed'')])
   \<and> fst (poll_loop image_input (Str ''job_1'') 1000 valid_client
         (world_at 1000 (sconst (responds 0 True 200
            (success_body (Obj [(''status'', Str ''processing''), (''progress'', Num 40)]))))))
     = Inr (Obj [(''success'', Bool False), (''mimeType'', Str []), (''provider'', Str ''unknown''),
                 (''modelId'', Str ''flux''), (''error'', Str ''Media generation timed out'')])
   \<and> polls (snd (snd (poll_loop image_input (Str ''job_1'') 1000 valid_client
         (world_at 1000 (sconst (responds 0 True 200
            (success_body (Obj [(''status'', Str ''processing''), (''progress'', Num 40)]))))))))
     = 150
   \<and> now (snd (snd (poll_loop image_input (Str ''job_1'') 1000 valid_client
         (world_at 1000 (sconst (responds 0 True 200
            (success_body (Obj [(''status'', Str ''processing''), (''progress'', Num 40)]))))))))
     = 301000
   \<and> poll_loop image_input (Str ''job_1'') 0 valid_client (world_at 300000 (sconst never))
     = (Inr (synthesized image_input ''Media generation timed out''), valid_client,
        world_at 300000 (sconst never))
   \<and> fst (poll_loop image_input (Str ''job_1'') 1000 valid_client
         (world_at 1000 (sconst (responds 5 True 200
            (success_body (Obj [(''status'', Str ''completed''),
                                (''progress'', Arr [Obj [(''toString'', Num 0)]])]))))))
     = Inl (JsError ''TypeError'' ''Cannot convert object to primitive value'')"
proof -
  let ?late = "world_at 300000 (sconst never)"
  obtain r4 s4 w4
    where run4: "poll_loop image_input (Str ''job_1'') 0 valid_client ?late = (r4, s4, w4)"
    by (cases "poll_loop image_input (Str ''job_1'') 0 valid_client ?late")
  have "\<not> now ?late - 0 < 300000"
    by (simp add: world_at_def)
  with poll_loop_cadence_and_outcomes [OF run4]
  have "r4 = Inr (synthesized image_input ''Media generation timed out'')
      \<and> s4 = valid_client \<and> w4 = ?late"
    by blast
  with run4 have fifth: "poll_loop image_input (Str ''job_1'') 0 valid_client ?late
     = (Inr (synthesized image_input ''Media generation timed out''), valid_client, ?late)"
    by simp
  let ?done = "world_at 1000 (sconst (responds 5 True 200
         (success_body (Obj [(''status'', Str ''completed''), (''result'', image_result)]))))"
  let ?failed = "world_at 1000 (sconst (responds 5 True 200
            (success_body (Obj [(''status'', Str ''failed'')]))))"
  let ?busy = "world_at 1000 (sconst (responds 0 True 200
            (success_body (Obj [(''status'', Str ''processing''), (''progress'', Num 40)]))))"
  let ?odd = "world_at 1000 (sconst (responds 5 True 200
            (success_body (Obj [(''status'', Str ''completed''),
                                (''progress'', Arr [Obj [(''toString'', Num 0)]])]))))"
  let ?j = "Str ''job_1''"
  have poll1: "getMediaJobStatus ?j valid_client (sleep (Num pollIntervalMs) ?done)
     = (Inr (Obj [(''status'', Str ''completed''), (''result'', image_result)]), valid_client,
        \<lparr> now = 3005,
          net = sconst (responds 5 True 200
            (success_body (Obj [(''status'', Str ''completed''), (''result'', image_result)]))),
          calls = [\<lparr> url = ''https://api.zilligon.com/v1/media/status/job_1'', httpMethod = ''GET'',
                     authorization = Some ''Bearer tok'', body = None \<rparr>],
          timers = [], nextTimer = 2 \<rparr>)"
    by (simp add: getMediaJobStatus_def sleep_def pollIntervalMs_def token_simps run_simps
        example_simps image_result_def)
  obtain r s1 w1 where run1: "poll_loop image_input ?j 1000 valid_client ?done = (r, s1, w1)"
    by (cases "poll_loop image_input ?j 1000 valid_client ?done")
  from poll_loop_cadence_and_outcomes [OF run1] poll1
  have "r = Inr image_result \<and> s1 = valid_client
      \<and> w1 = \<lparr> now = 3005,
          net = sconst (responds 5 True 200
            (success_body (Obj [(''status'', Str ''completed''), (''result'', image_result)]))),
          calls = [\<lparr> url = ''https://api.zilligon.com/v1/media/status/job_1'', httpMethod = ''GET'',
                     authorization = Some ''Bearer tok'', body = None \<rparr>],
          timers = [], nextTimer = 2 \<rparr>"
    by (simp add: world_at_def image_result_def)
  with run1 have first: "poll_loop image_input ?j 1000 valid_client ?done
     = (Inr image_result, valid_client,
        \<lparr> now = 3005,
          net = sconst (responds 5 True 200
            (success_body (Obj [(''status'', Str ''completed''), (''result'', image_result)]))),
          calls = [\<lparr> url = ''https://api.zilligon.com/v1/media/status/job_1'', httpMethod = ''GET'',
                     authorization = Some ''Bearer tok'', body = None \<rparr>],
          timers = [], nextTimer = 2 \<rparr>)"
    by simp
  have poll2: "fst (getMediaJobStatus ?j valid_client (sleep (Num pollIntervalMs) ?failed))
     = Inr (Obj [(''status'', Str ''failed'')])"
    by (simp add: getMediaJobStatus_def sleep_def pollIntervalMs_def token_simps run_simps
        example_simps)
  obtain q s' w' where st2: "getMediaJobStatus ?j valid_client (sleep (Num pollIntervalMs) ?failed)
      = (q, s', w')"
    by (cases "getMediaJobStatus ?j valid_client (sleep (Num pollIntervalMs) ?failed)")
  with poll2 have q: "q = Inr (Obj [(''status'', Str ''failed'')])" by simp
  obtain r2 s2 w2 where run2: "poll_loop image_input ?j 1000 valid_client ?failed = (r2, s2, w2)"
    by (cases "poll_loop image_input ?j 1000 valid_client ?failed")
  from poll_loop_cadence_and_outcomes [OF run2] st2 q
  have "r2 = Inr (synthesized image_input ''Media generation failed'')"
    by (simp add: world_at_def)
  with run2 have second: "fst (poll_loop image_input ?j 1000 valid_client ?failed)
     = Inr (Obj [(''success'', Bool False), (''mimeType'', Str []), (''provider'', Str ''unknown''),
                 (''modelId'', Str ''flux''), (''error'', Str ''Media generation failed'')])"
    by (simp add: synthesized_def image_input_def js_or_def)
  have busy: "served pending_poll 1 ?busy"
    by (simp add: served_def answers_def world_at_def responds_def success_body_def pending_poll_def
        benign_def converts_def)
  have conv: "converts ?j" "converts (accessToken valid_client)"
    by (simp_all add: converts_def valid_client_def)
  obtain r3 s3 w3 where run3: "poll_loop image_input ?j 1000 valid_client ?busy = (r3, s3, w3)"
    by (cases "poll_loop image_input ?j 1000 valid_client ?busy")
  have start: "1000 = now ?busy"
    by (simp add: world_at_def)
  from busy conv timer_delay_pos[of "timeout (config valid_client)"]
  have prompt: "served pending_poll 1 ?busy \<and> 1 \<le> timer_delay (timeout (config valid_client))
      \<and> converts ?j \<and> converts (accessToken valid_client)"
    by simp
  note facts = poll_loop_cadence_and_outcomes [OF run3]
  note ceiling = facts [THEN conjunct2, THEN conjunct2, THEN conjunct2, THEN conjunct2,
      THEN conjunct2, THEN conjunct1, rule_format, OF prompt]
  note count = facts [THEN conjunct2, THEN conjunct2, THEN conjunct2, THEN conjunct2,
      THEN conjunct2, THEN conjunct2, THEN conjunct2, THEN conjunct1, rule_format]
  from ceiling
  have "r3 = Inr (synthesized image_input ''Media generation timed out'')
      \<and> 300000 \<le> now w3 - 1000
      \<and> 2000 * (int (polls w3) - int (polls ?busy)) \<le> now w3 - now ?busy
      \<and> now w3 - now ?busy \<le> (2000 + 3 * (int 1 - 1)) * (int (polls w3) - int (polls ?busy))" .
  moreover from busy conv start
  have "polls w3 = polls ?busy + 150"
    by (intro count) simp
  ultimately have "r3 = Inr (synthesized image_input ''Media generation timed out'')"
    and "polls w3 = 150" and "now w3 = 301000"
    by (simp_all add: world_at_def polls_def)
  with run3 have third: "fst (poll_loop image_input ?j 1000 valid_client ?busy)
     = Inr (Obj [(''success'', Bool False), (''mimeType'', Str []), (''provider'', Str ''unknown''),
                 (''modelId'', Str ''flux''), (''error'', Str ''Media generation timed out'')])"
    and fourth: "polls (snd (snd (poll_loop image_input ?j 1000 valid_client ?busy))) = 150"
    and elapsed: "now (snd (snd (poll_loop image_input ?j 1000 valid_client ?busy))) = 301000"
    by (simp_all add: synthesized_def image_input_def js_or_def)
  have poll5: "fst (getMediaJobStatus ?j valid_client (sleep (Num pollIntervalMs) ?odd))
     = Inr (Obj [(''status'', Str ''completed''), (''progress'', Arr [Obj [(''toString'', Num 0)]])])"
    by (simp add: getMediaJobStatus_def sleep_def pollIntervalMs_def token_simps run_simps
        example_simps)
  obtain q5 s5' w5' where st5: "getMediaJobStatus ?j valid_client (sleep (Num pollIntervalMs) ?odd)
      = (q5, s5', w5')"
    by (cases "getMediaJobStatus ?j valid_client (sleep (Num pollIntervalMs) ?odd)")
  with poll5 have q5: "q5 = Inr (Obj [(''status'', Str ''completed''),
      (''progress'', Arr [Obj [(''toString'', Num 0)]])])"
    by simp
  obtain r5 s5 w5 where run5: "poll_loop image_input ?j 1000 valid_client ?odd = (r5, s5, w5)"
    by (cases "poll_loop image_input ?j 1000 valid_client ?odd")
  have early: "now ?odd - 1000 < 300000"
    by (simp add: world_at_def)
  from st5 q5
  have "getMediaJobStatus ?j valid_client (sleep (Num pollIntervalMs) ?odd)
          = (Inr (Obj [(''status'', Str ''completed''),
                       (''progress'', Arr [Obj [(''toString'', Num 0)]])]), s5', w5')
      \<and> \<not> nullish (Obj [(''status'', Str ''completed''),
                       (''progress'', Arr [Obj [(''toString'', Num 0)]])])
      \<and> pending_poll (Obj [(''status'', Str ''completed''),
                       (''progress'', Arr [Obj [(''toString'', Num 0)]])])
      \<and> ToString (member (Obj [(''status'', Str ''completed''),
                       (''progress'', Arr [Obj [(''toString'', Num 0)]])]) ''progress'')
          = Inl cannot_convert"
    by (simp add: pending_poll_def)
  from poll_loop_cadence_and_outcomes [OF run5, THEN conjunct2, THEN conjunct2, THEN conjunct2,
      THEN conjunct1, rule_format, OF early this]
  have "r5 = Inl cannot_convert"
    by simp
  with run5 have sixth: "fst (poll_loop image_input ?j 1000 valid_client ?odd)
     = Inl (JsError ''TypeError'' ''Cannot convert object to primitive value'')"
    by (simp add: cannot_convert_def)
  from first second third fourth elapsed fifth sixth show ?thesis by (intro conjI)
qed

section \<open>A completed job without a result\<close>

text \<open>A status payload that says \<open>completed\<close> and carries no (truthy) result.\<close>

definition completed_without_result :: "jsval \<Rightarrow> bool" where
  "completed_without_result status =
     (member status ''status'' = Str ''completed'' \<and> \<not> truthy (member status ''result''))"

lemma completed_without_result_pending:
  "completed_without_result status \<Longrightarrow> pending_poll status"
  by (simp add: completed_without_result_def pending_poll_def)

lemma completed_without_result_object:
  "completed_without_result status \<Longrightarrow> \<not> nullish status"
  using member_nullish[of status "''status''"] by (auto simp: completed_without_result_def)

text \<open>
  The whole call after a submit that was answered with a benign job, in a world that
  from then on keeps answering with payloads that are not terminal.
\<close>

lemma generateMediaAndWait_pending:
  assumes "submitMediaJob (job_spec input) s w = (Inr job, s', w')"
    and "\<not> nullish job" and "benign job"
    and "served pending_poll d w'" and "d \<le> timer_delay (timeout (config s'))"
    and "converts (accessToken s')"
  shows "\<exists>s1 w1. generateMediaAndWait input s w
              = (Inr (synthesized input ''Media generation timed out''), s1, w1)
           \<and> polls w1 \<le> polls w' + 150
           \<and> 300000 \<le> (2000 + 3 * (int d - 1)) * (int (polls w1) - int (polls w'))
           \<and> now w' + 300000 \<le> now w1"
proof -
  from assms(3) have cj: "converts (member job ''jobId'')"
    and ce: "converts (member job ''estimatedTime'')"
    by (simp_all add: benign_def)
  from generateMediaAndWait_after_submit[OF assms(1,2) cj ce]
  have gen: "generateMediaAndWait input s w = poll_loop input (member job ''jobId'') (now w') s' w'" .
  from poll_loop_served[OF assms(4,5) cj assms(6), of input "now w'"]
  obtain s1 w1 where run: "poll_loop input (member job ''jobId'') (now w') s' w'
              = (Inr (synthesized input ''Media generation timed out''), s1, w1)"
    and late: "maxWaitMs \<le> now w1 - now w'"
    and hi: "now w1 - now w' \<le> (2000 + 3 * (int d - 1)) * (int (polls w1) - int (polls w'))"
    by blast
  from polls_poll_loop[OF run] have "polls w1 \<le> polls w' + 150"
    by (simp add: maxWaitMs_def polls_left_ceiling)
  with gen run late hi show ?thesis
    by (simp add: maxWaitMs_def)
qed

text \<open>
  Claim C10 as stated fails: a poll that reports \<open>completed\<close> with no result, in a
  payload whose \<open>progress\<close> is an object with an own \<open>toString\<close> property, makes the
  call throw a TypeError at that poll instead of going on.
\<close>

theorem completed_without_result_counterexample:
  "fst (generateMediaAndWait image_input valid_client
         (world_at 1000 (job_queued ## sconst (responds 10 True 200
            (success_body (Obj [(''status'', Str ''completed''),
                                (''progress'', Obj [(''toString'', Null)])]))))))
     = Inl (JsError ''TypeError'' ''Cannot convert object to primitive value'')
   \<and> polls (snd (snd (generateMediaAndWait image_input valid_client
         (world_at 1000 (job_queued ## sconst (responds 10 True 200
            (success_body (Obj [(''status'', Str ''completed''),
                                (''progress'', Obj [(''toString'', Null)])]))))))))
     = 1"
proof -
  let ?es = "sconst (responds 10 True 200
            (success_body (Obj [(''status'', Str ''completed''),
                                (''progress'', Obj [(''toString'', Null)])])))"
  let ?w0 = "\<lparr> now = 1010, net = ?es,
          calls = [\<lparr> url = ''https://api.zilligon.com/v1/media/generate'', httpMethod = ''POST'',
                     authorization = Some ''Bearer tok'',
                     body = Some (Obj [(''type'', Str ''image''), (''model'', Str ''flux''),
                                       (''prompt'', Str ''a lighthouse''),
                                       (''options'', Obj [(''aspectRatio'', Undefined),
                                          (''duration'', Undefined), (''voice'', Undefined),
                                          (''style'', Undefined), (''negativePrompt'', Undefined)])]) \<rparr>],
          timers = [], nextTimer = 1 \<rparr>"
  let ?status = "Obj [(''status'', Str ''completed''), (''progress'', Obj [(''toString'', Null)])]"
  obtain s' w' where poll: "getMediaJobStatus (Str ''job_1'') valid_client
      (sleep (Num pollIntervalMs) ?w0) = (Inr ?status, s', w')"
    and "polls w' = 1"
    by (simp add: getMediaJobStatus_def sleep_def pollIntervalMs_def token_simps run_simps
        example_simps polls_def)
  moreover have "poll_loop image_input (Str ''job_1'') 1010 valid_client ?w0
      = (Inl cannot_convert, s', w')"
    using poll_loop_progress_throws[OF _ poll, where startTime = 1010 and t = cannot_convert
        and input = image_input]
    by (simp add: maxWaitMs_def pending_poll_def cannot_convert_def)
  ultimately show ?thesis
    by (simp add: generate_queued cannot_convert_def)
qed

text \<open>
  Claim C10, amended. A poll, made before the ceiling, whose payload says \<open>completed\<close>
  but carries no result does not return: when the payload's \<open>progress\<close> can be
  converted to a string (as when it is absent, a number or a string) the loop goes on from
  the state that poll left, and when it cannot, the loop throws the TypeError of that
  conversion. Such a payload is one of those that are not terminal. Let then the whole
  call return or throw \<open>r\<close>, leaving world \<open>w1\<close>. If the submit is answered with a
  benign job and every later answer of the transport is a benign payload that says
  \<open>completed\<close> without a result (the stored token being valid and convertible), the
  call goes on polling up to the ceiling: it ends with the made-up result
  \<open>Media generation timed out\<close>, not before 300000 ms have passed, after at most 150
  polls and at least as many as fit into 300000 ms at \<open>2000 + 3 (d - 1)\<close> ms each. The
  same holds when every answer, the one to the submit included, is such a payload,
  whatever the state of the token.
\<close>

theorem completed_without_result_keeps_polling:
  assumes "generateMediaAndWait input s w = (r, s1, w1)"
  shows "(now wa - startTime < 300000
      \<and> getMediaJobStatus jobId sa (sleep (Num pollIntervalMs) wa) = (Inr status, s', w')
      \<and> completed_without_result status \<and> converts (member status ''progress'')
    \<longrightarrow> poll_loop input jobId startTime sa wa = poll_loop input jobId startTime s' w')
   \<and> (now wa - startTime < 300000
      \<and> getMediaJobStatus jobId sa (sleep (Num pollIntervalMs) wa) = (Inr status, s', w')
      \<and> completed_without_result status \<and> ToString (member status ''progress'') = Inl t
    \<longrightarrow> poll_loop input jobId startTime sa wa = (Inl t, s', w'))
   \<and> (completed_without_result status \<longrightarrow> pending_poll status)
   \<and> (isValid s (now w) \<and> converts (accessToken s)
      \<and> answers (\<lambda>job. True) d (shd (net w))
      \<and> (\<forall>e \<in> sset (stl (net w)). answers completed_without_result d e)
      \<and> d \<le> timer_delay (timeout (config s))
    \<longrightarrow> r = Inr (synthesized input ''Media generation timed out'')
        \<and> polls w1 \<le> polls w + 150
        \<and> 300000 \<le> (2000 + 3 * (int d - 1)) * (int (polls w1) - int (polls w))
        \<and> now w + 300000 \<le> now w1)
   \<and> (served completed_without_result d w \<and> d \<le> timer_delay (timeout (config s))
      \<and> converts (accessToken s)
    \<longrightarrow> r = Inr (synthesized input ''Media generation timed out'')
        \<and> polls w1 \<le> polls w + 150
        \<and> 300000 \<le> (2000 + 3 * (int d - 1)) * (int (polls w1) - int (polls w))
        \<and> now w + 300000 \<le> now w1)"
proof -
  have A: "now wa - startTime < 300000
      \<and> getMediaJobStatus jobId sa (sleep (Num pollIntervalMs) wa) = (Inr status, s', w')
      \<and> completed_without_result status \<and> converts (member status ''progress'')
    \<longrightarrow> poll_loop input jobId startTime sa wa = poll_loop input jobId startTime s' w'"
    using poll_loop_again[of wa startTime jobId sa status s' w' input]
      completed_without_result_pending[of status] completed_without_result_object[of status]
    by (simp add: maxWaitMs_def)
  have B: "now wa - startTime < 300000
      \<and> getMediaJobStatus jobId sa (sleep (Num pollIntervalMs) wa) = (Inr status, s', w')
      \<and> completed_without_result status \<and> ToString (member status ''progress'') = Inl t
    \<longrightarrow> poll_loop input jobId startTime sa wa = (Inl t, s', w')"
    using poll_loop_progress_throws[of wa startTime jobId sa status s' w' t input]
      completed_without_result_pending[of status] completed_without_result_object[of status]
    by (simp add: maxWaitMs_def)
  have C: "completed_without_result status \<longrightarrow> pending_poll status"
    by (simp add: completed_without_result_pending)
  have D: "isValid s (now w) \<and> converts (accessToken s)
      \<and> answers (\<lambda>job. True) d (shd (net w))
      \<and> (\<forall>e \<in> sset (stl (net w)). answers completed_without_result d e)
      \<and> d \<le> timer_delay (timeout (config s))
    \<longrightarrow> r = Inr (synthesized input ''Media generation timed out'')
        \<and> polls w1 \<le> polls w + 150
        \<and> 300000 \<le> (2000 + 3 * (int d - 1)) * (int (polls w1) - int (polls w))
        \<and> now w + 300000 \<le> now w1"
  proof
    assume h: "isValid s (now w) \<and> converts (accessToken s)
      \<and> answers (\<lambda>job. True) d (shd (net w))
      \<and> (\<forall>e \<in> sset (stl (net w)). answers completed_without_result d e)
      \<and> d \<le> timer_delay (timeout (config s))"
    obtain bdy where sub: "submitMediaJob (job_spec input) s w
        = request ''POST'' ''/v1/media/generate'' bdy False s w"
      by (simp add: submitMediaJob_def)
    from h obtain tk where tk: "ToString (accessToken s) = Inr tk"
      using converts_Inr by blast
    from h send_answers[of "\<lambda>job. True" d w "config s" "''POST''" "''/v1/media/generate''" bdy
        "Some (''Bearer '' @ tk)"]
    obtain job wa l where snd: "send (config s) ''POST'' ''/v1/media/generate'' bdy
          (Some (''Bearer '' @ tk)) w = (Inr job, wa)"
      and job: "\<not> nullish job" "benign job" and net: "net wa = stl (net w)"
      and time: "now wa = now w + int l"
      by blast
    from h tk snd have req: "request ''POST'' ''/v1/media/generate'' bdy False s w = (Inr job, s, wa)"
      using request_direct[of False s w tk "''POST''" "''/v1/media/generate''" bdy] by simp
    from polls_request[OF req] have same: "polls wa = polls w" by simp
    from h net have "served completed_without_result d wa"
      by (simp add: served_def)
    then have sv: "served pending_poll d wa"
      by (rule served_mono) (rule completed_without_result_pending)
    from h have "d \<le> timer_delay (timeout (config s))" and "converts (accessToken s)"
      by simp_all
    from generateMediaAndWait_pending[OF _ job sv this, of input s w] sub req
    obtain sf wf where "generateMediaAndWait input s w
                = (Inr (synthesized input ''Media generation timed out''), sf, wf)"
      and "polls wf \<le> polls wa + 150"
      and "300000 \<le> (2000 + 3 * (int d - 1)) * (int (polls wf) - int (polls wa))"
      and "now wa + 300000 \<le> now wf"
      by auto
    with assms same time
    show "r = Inr (synthesized input ''Media generation timed out'')
          \<and> polls w1 \<le> polls w + 150
          \<and> 300000 \<le> (2000 + 3 * (int d - 1)) * (int (polls w1) - int (polls w))
          \<and> now w + 300000 \<le> now w1"
      by simp
  qed
  have E: "served completed_without_result d w \<and> d \<le> timer_delay (timeout (config s))
      \<and> converts (accessToken s)
    \<longrightarrow> r = Inr (synthesized input ''Media generation timed out'')
        \<and> polls w1 \<le> polls w + 150
        \<and> 300000 \<le> (2000 + 3 * (int d - 1)) * (int (polls w1) - int (polls w))
        \<and> now w + 300000 \<le> now w1"
  proof
    assume h: "served completed_without_result d w \<and> d \<le> timer_delay (timeout (config s))
        \<and> converts (accessToken s)"
    obtain bdy where sub: "submitMediaJob (job_spec input) s w
        = request ''POST'' ''/v1/media/generate'' bdy False s w"
      by (simp add: submitMediaJob_def)
    from h have sv: "served pending_poll d w"
      by (auto intro: served_mono completed_without_result_pending)
    from h request_served[OF sv, of s "''POST''" "''/v1/media/generate''" bdy]
    obtain job s' wa where req: "request ''POST'' ''/v1/media/generate'' bdy False s w = (Inr job, s', wa)"
      and job: "\<not> nullish job" "benign job" and cfg: "config s' = config s"
      and cv: "converts (accessToken s')"
      and sv0: "served pending_poll d wa" and time: "now w \<le> now wa"
      by blast
    from polls_request[OF req] have same: "polls wa = polls w" by simp
    from h cfg have "d \<le> timer_delay (timeout (config s'))" by simp
    from generateMediaAndWait_pending[OF _ job sv0 this cv, of input s w] sub req
    obtain sf wf where "generateMediaAndWait input s w
                = (Inr (synthesized input ''Media generation timed out''), sf, wf)"
      and "polls wf \<le> polls wa + 150"
      and "300000 \<le> (2000 + 3 * (int d - 1)) * (int (polls wf) - int (polls wa))"
      and "now wa + 300000 \<le> now wf"
      by auto
    with assms same time
    show "r = Inr (synthesized input ''Media generation timed out'')
          \<and> polls w1 \<le> polls w + 150
          \<and> 300000 \<le> (2000 + 3 * (int d - 1)) * (int (polls w1) - int (polls w))
          \<and> now w + 300000 \<le> now w1"
      by simp
  qed
  from A B C D E show ?thesis by (intro conjI)
qed

theorem completed_without_result_keeps_polling_witness:
  "poll_loop image_input (Str ''job_1'') 1000 valid_client
      (world_at 1000 (sconst (responds 10 True 200 (success_body (Obj [(''status'', Str ''completed'')])))))
     = poll_loop image_input (Str ''job_1'') 1000 valid_client
        \<lparr> now = 3010,
          net = sconst (responds 10 True 200 (success_body (Obj [(''status'', Str ''completed'')]))),
          calls = [\<lparr> url = ''https://api.zilligon.com/v1/media/status/job_1'', httpMethod = ''GET'',
                     authorization = Some ''Bearer tok'', body = None \<rparr>],
          timers = [], nextTimer = 2 \<rparr>
   \<and> fst (generateMediaAndWait image_input valid_client
         (world_at 1000
            (job_queued ## sconst (responds 10 True 200 (success_body (Obj [(''status'', Str ''completed'')]))))))
     = Inr (Obj [(''success'', Bool False), (''mimeType'', Str []), (''provider'', Str ''unknown''),
                 (''modelId'', Str ''flux''), (''error'', Str ''Media generation timed out'')])
   \<and> 148 \<le> polls (snd (snd (generateMediaAndWait image_input valid_client
         (world_at 1000
            (job_queued ## sconst (responds 10 True 200 (success_body (Obj [(''status'', Str ''completed'')]))))))))
   \<and> polls (snd (snd (generateMediaAndWait image_input valid_client
         (world_at 1000
            (job_queued ## sconst (responds 10 True 200 (success_body (Obj [(''status'', Str ''completed'')]))))))))
       \<le> 150
   \<and> 301000 \<le> now (snd (snd (generateMediaAndWait image_input valid_client
         (world_at 1000
            (job_queued ## sconst (responds 10 True 200 (success_body (Obj [(''status'', Str ''completed'')]))))))))
   \<and> fst (generateMediaAndWait image_input fresh_client
         (world_at 1000 (sconst (responds 10 True 200
            (success_body (Obj [(''status'', Str ''completed'')]))))))
     = Inr (synthesized image_input ''Media generation timed out'')
   \<and> 1 \<le> polls (snd (snd (generateMediaAndWait image_input fresh_client
         (world_at 1000 (sconst (responds 10 True 200
            (success_body (Obj [(''status'', Str ''completed'')]))))))))
   \<and> fst (poll_loop image_input (Str ''job_1'') 1000 valid_client
         (world_at 1000 (sconst (responds 10 True 200
            (success_body (Obj [(''status'', Str ''completed''), (''result'', Null),
                                (''progress'', Obj [(''toString'', Str ''100%'')])]))))))
     = Inl (JsError ''TypeError'' ''Cannot convert object to primitive value'')"
proof -
  let ?stuck = "world_at 1000 (sconst (responds 10 True 200
      (success_body (Obj [(''status'', Str ''completed'')]))))"
  let ?w = "world_at 1000
            (job_queued ## sconst (responds 10 True 200 (success_body (Obj [(''status'', Str ''completed'')]))))"
  let ?odd = "world_at 1000 (sconst (responds 10 True 200
            (success_body (Obj [(''status'', Str ''completed''), (''result'', Null),
                                (''progress'', Obj [(''toString'', Str ''100%'')])]))))"
  let ?j = "Str ''job_1''"
  obtain r s1 w1 where run: "generateMediaAndWait image_input valid_client ?w = (r, s1, w1)"
    by (cases "generateMediaAndWait image_input valid_client ?w")
  note facts = completed_without_result_keeps_polling [OF run]
  have poll: "getMediaJobStatus ?j valid_client (sleep (Num pollIntervalMs) ?stuck)
     = (Inr (Obj [(''status'', Str ''completed'')]), valid_client,
        \<lparr> now = 3010,
          net = sconst (responds 10 True 200 (success_body (Obj [(''status'', Str ''completed'')]))),
          calls = [\<lparr> url = ''https://api.zilligon.com/v1/media/status/job_1'', httpMethod = ''GET'',
                     authorization = Some ''Bearer tok'', body = None \<rparr>],
          timers = [], nextTimer = 2 \<rparr>)"
    by (simp add: getMediaJobStatus_def sleep_def pollIntervalMs_def token_simps run_simps
        example_simps)
  have "now ?stuck - 1000 < 300000
      \<and> getMediaJobStatus ?j valid_client (sleep (Num pollIntervalMs) ?stuck)
     = (Inr (Obj [(''status'', Str ''completed'')]), valid_client,
        \<lparr> now = 3010,
          net = sconst (responds 10 True 200 (success_body (Obj [(''status'', Str ''completed'')]))),
          calls = [\<lparr> url = ''https://api.zilligon.com/v1/media/status/job_1'', httpMethod = ''GET'',
                     authorization = Some ''Bearer tok'', body = None \<rparr>],
          timers = [], nextTimer = 2 \<rparr>)
      \<and> completed_without_result (Obj [(''status'', Str ''completed'')])
      \<and> converts (member (Obj [(''status'', Str ''completed'')]) ''progress'')"
    using poll by (simp add: world_at_def completed_without_result_def converts_def)
  from facts [THEN conjunct1, rule_format, OF this]
  have step: "poll_loop image_input ?j 1000 valid_client ?stuck
     = poll_loop image_input ?j 1000 valid_client
        \<lparr> now = 3010,
          net = sconst (responds 10 True 200 (success_body (Obj [(''status'', Str ''completed'')]))),
          calls = [\<lparr> url = ''https://api.zilligon.com/v1/media/status/job_1'', httpMethod = ''GET'',
                     authorization = Some ''Bearer tok'', body = None \<rparr>],
          timers = [], nextTimer = 2 \<rparr>" .
  have "isValid valid_client (now ?w) \<and> converts (accessToken valid_client)
      \<and> answers (\<lambda>job. True) 11 (shd (net ?w))
      \<and> (\<forall>e \<in> sset (stl (net ?w)). answers completed_without_result 11 e)
      \<and> 11 \<le> timer_delay (timeout (config valid_client))"
    by (simp add: token_simps run_simps example_simps answers_def job_queued_def benign_def
        converts_def completed_without_result_def)
  from facts [THEN conjunct2, THEN conjunct2, THEN conjunct2, THEN conjunct1, rule_format, OF this]
  have "r = Inr (synthesized image_input ''Media generation timed out'')"
    and "polls w1 \<le> polls ?w + 150"
    and "300000 \<le> (2000 + 3 * (int 11 - 1)) * (int (polls w1) - int (polls ?w))"
    and "now ?w + 300000 \<le> now w1"
    by simp_all
  then have "r = Inr (Obj [(''success'', Bool False), (''mimeType'', Str []), (''provider'', Str ''unknown''),
                 (''modelId'', Str ''flux''), (''error'', Str ''Media generation timed out'')])"
    and "148 \<le> polls w1" and "polls w1 \<le> 150" and "301000 \<le> now w1"
    by (simp_all add: synthesized_def image_input_def js_or_def polls_def world_at_def)
  with run have timed_out: "fst (generateMediaAndWait image_input valid_client ?w)
     = Inr (Obj [(''success'', Bool False), (''mimeType'', Str []), (''provider'', Str ''unknown''),
                 (''modelId'', Str ''flux''), (''error'', Str ''Media generation timed out'')])"
    and many: "148 \<le> polls (snd (snd (generateMediaAndWait image_input valid_client ?w)))"
    and few: "polls (snd (snd (generateMediaAndWait image_input valid_client ?w))) \<le> 150"
    and long: "301000 \<le> now (snd (snd (generateMediaAndWait image_input valid_client ?w)))"
    by simp_all
  obtain r' s1' w1' where run': "generateMediaAndWait image_input fresh_client ?stuck = (r', s1', w1')"
    by (cases "generateMediaAndWait image_input fresh_client ?stuck")
  have "served completed_without_result 11 ?stuck
      \<and> 11 \<le> timer_delay (timeout (config fresh_client)) \<and> converts (accessToken fresh_client)"
    by (simp add: served_def answers_def run_simps example_simps benign_def converts_def
        completed_without_result_def)
  from completed_without_result_keeps_polling [OF run', THEN conjunct2, THEN conjunct2,
      THEN conjunct2, THEN conjunct2, rule_format, OF this]
  have "r' = Inr (synthesized image_input ''Media generation timed out'')"
    and "300000 \<le> (2000 + 3 * (int 11 - 1)) * (int (polls w1') - int (polls ?stuck))"
    by simp_all
  then have "r' = Inr (synthesized image_input ''Media generation timed out'')"
    and "1 \<le> polls w1'"
    by (simp_all add: polls_def world_at_def)
  with run' have unauthenticated: "fst (generateMediaAndWait image_input fresh_client ?stuck)
     = Inr (synthesized image_input ''Media generation timed out'')"
    and some: "1 \<le> polls (snd (snd (generateMediaAndWait image_input fresh_client ?stuck)))"
    by simp_all
  have poll': "fst (getMediaJobStatus ?j valid_client (sleep (Num pollIntervalMs) ?odd))
     = Inr (Obj [(''status'', Str ''completed''), (''result'', Null),
                 (''progress'', Obj [(''toString'', Str ''100%'')])])"
    by (simp add: getMediaJobStatus_def sleep_def pollIntervalMs_def token_simps run_simps
        example_simps)
  obtain q sq wq where st: "getMediaJobStatus ?j valid_client (sleep (Num pollIntervalMs) ?odd)
      = (q, sq, wq)"
    by (cases "getMediaJobStatus ?j valid_client (sleep (Num pollIntervalMs) ?odd)")
  with poll' have "now ?odd - 1000 < 300000
      \<and> getMediaJobStatus ?j valid_client (sleep (Num pollIntervalMs) ?odd)
          = (Inr (Obj [(''status'', Str ''completed''), (''result'', Null),
                       (''progress'', Obj [(''toString'', Str ''100%'')])]), sq, wq)
      \<and> completed_without_result (Obj [(''status'', Str ''completed''), (''result'', Null),
                       (''progress'', Obj [(''toString'', Str ''100%'')])])
      \<and> ToString (member (Obj [(''status'', Str ''completed''), (''result'', Null),
                       (''progress'', Obj [(''toString'', Str ''100%'')])]) ''progress'')
          = Inl cannot_convert"
    by (simp add: world_at_def completed_without_result_def)
  from facts [THEN conjunct2, THEN conjunct1, rule_format, OF this]
  have raised: "fst (poll_loop image_input ?j 1000 valid_client ?odd)
     = Inl (JsError ''TypeError'' ''Cannot convert object to primitive value'')"
    by (simp add: cannot_convert_def)
  from step timed_out many few long unauthenticated some raised show ?thesis by (intro conjI)
qed

section \<open>What the poller throws and what it returns\<close>












end
